theory Spec2Isabelle
  imports Complex_Main "HOL-Library.AList"
begin

section \<open>Python values and exceptions\<close>

text \<open>
  The exceptions the modelled code can raise. A function that can raise returns
  \<open>exn + 'a\<close>, with \<open>Inl\<close> for the exception.
\<close>

datatype exn = AttributeError | TypeError | ValueError | KeyError | OverflowError | ProfileError

text \<open>
  The values a custom-module variable or a registry slot can hold: \<open>None\<close>, an integer,
  a float or a string. A float is given by the rational number it denotes (only finite
  floats are values of the model).
\<close>

datatype pyval = PNone | PInt int | PFloat rat | PStr string

section \<open>custom\_module.py: VariableRegistry\<close>

text \<open>
  \<open>self._registry\<close> is a dictionary of dictionaries of dictionaries:
  module, then instance name, then variable label. Python compares dictionaries without
  regard to order, so each level is a map.
\<close>

type_synonym variables = "string \<rightharpoonup> pyval"
type_synonym instances = "string \<rightharpoonup> variables"
type_synonym registry = "string \<rightharpoonup> instances"

definition VariableRegistry_init :: registry where
  "VariableRegistry_init = Map.empty"

definition VariableRegistry_clear :: "registry \<Rightarrow> registry" where
  "VariableRegistry_clear reg = Map.empty"

text \<open>
  \<open>_get_instance\<close> inserts an empty dictionary at the module level and at the instance
  level when the key is missing, and returns the instance's dictionary. The model returns
  that dictionary together with the registry as the call leaves it.
\<close>

definition VariableRegistry_get_instance ::
  "registry \<Rightarrow> string \<Rightarrow> string \<Rightarrow> variables \<times> registry" where
  "VariableRegistry_get_instance reg modul name =
     (let reg1 = (if reg modul = None then reg(modul \<mapsto> Map.empty) else reg);
          insts = (case reg1 modul of Some m \<Rightarrow> m | None \<Rightarrow> Map.empty);
          insts1 = (if insts name = None then insts(name \<mapsto> Map.empty) else insts);
          reg2 = reg1(modul \<mapsto> insts1)
      in ((case insts1 name of Some vars \<Rightarrow> vars | None \<Rightarrow> Map.empty), reg2))"

text \<open>
  \<open>set\<close> assigns into the dictionary that \<open>_get_instance\<close> returns; that dictionary is
  the one stored in the registry, so the assignment is written back at
  \<open>reg[module][name]\<close>.
\<close>

definition VariableRegistry_set ::
  "registry \<Rightarrow> string \<Rightarrow> string \<Rightarrow> string \<Rightarrow> pyval \<Rightarrow> registry" where
  "VariableRegistry_set reg modul name key val =
     (let (vars, reg2) = VariableRegistry_get_instance reg modul name;
          insts = (case reg2 modul of Some m \<Rightarrow> m | None \<Rightarrow> Map.empty)
      in reg2(modul \<mapsto> insts(name \<mapsto> vars(key \<mapsto> val))))"

text \<open>\<open>get\<close> is \<open>_get_instance(module, name).get(key, None)\<close>.\<close>

definition VariableRegistry_get ::
  "registry \<Rightarrow> string \<Rightarrow> string \<Rightarrow> string \<Rightarrow> pyval \<times> registry" where
  "VariableRegistry_get reg modul name key =
     (let (vars, reg2) = VariableRegistry_get_instance reg modul name
      in ((case vars key of Some v \<Rightarrow> v | None \<Rightarrow> PNone), reg2))"

text \<open>
  What the registry stores at a key triple: the value a dictionary lookup finds, or
  \<open>None\<close> when any of the three levels lacks its key.
\<close>

definition stored :: "registry \<Rightarrow> string \<Rightarrow> string \<Rightarrow> string \<Rightarrow> pyval option" where
  "stored reg modul name key =
     (case reg modul of None \<Rightarrow> None
      | Some insts \<Rightarrow> (case insts name of None \<Rightarrow> None | Some vars \<Rightarrow> vars key))"

section \<open>Python builtins that the code calls\<close>

subsection \<open>Comparison, \<open>min\<close> and \<open>max\<close>\<close>

text \<open>Strings compare lexicographically by character code.\<close>

fun str_less :: "string \<Rightarrow> string \<Rightarrow> bool" where
  "str_less [] [] = False"
| "str_less [] (y # ys) = True"
| "str_less (x # xs) [] = False"
| "str_less (x # xs) (y # ys) =
     (if x = y then str_less xs ys else (of_char x :: nat) < of_char y)"

text \<open>
  \<open>a < b\<close>: numbers compare by value, also an integer with a float; strings with
  strings; every other pairing raises \<open>TypeError\<close>.
\<close>

fun py_lt :: "pyval \<Rightarrow> pyval \<Rightarrow> exn + bool" where
  "py_lt (PInt a) (PInt b) = Inr (a < b)"
| "py_lt (PInt a) (PFloat b) = Inr (of_int a < b)"
| "py_lt (PFloat a) (PInt b) = Inr (a < of_int b)"
| "py_lt (PFloat a) (PFloat b) = Inr (a < b)"
| "py_lt (PStr a) (PStr b) = Inr (str_less a b)"
| "py_lt _ _ = Inl TypeError"

definition py_gt :: "pyval \<Rightarrow> pyval \<Rightarrow> exn + bool" where
  "py_gt a b = py_lt b a"

text \<open>
  \<open>max(a, b)\<close> keeps \<open>a\<close> unless \<open>b > a\<close>; \<open>min(a, b)\<close> keeps \<open>a\<close> unless
  \<open>b < a\<close>. Either returns one of its arguments as it is.
\<close>

definition py_max :: "pyval \<Rightarrow> pyval \<Rightarrow> exn + pyval" where
  "py_max a b = (case py_gt b a of Inl e \<Rightarrow> Inl e | Inr g \<Rightarrow> Inr (if g then b else a))"

definition py_min :: "pyval \<Rightarrow> pyval \<Rightarrow> exn + pyval" where
  "py_min a b = (case py_lt b a of Inl e \<Rightarrow> Inl e | Inr l \<Rightarrow> Inr (if l then b else a))"

subsection \<open>\<open>str\<close> and \<open>int\<close> on integers and strings\<close>

text \<open>The decimal digit for a number below ten.\<close>

definition digit_char :: "nat \<Rightarrow> char" where
  "digit_char d = ''0123456789'' ! d"

fun str_nat :: "nat \<Rightarrow> string" where
  "str_nat n = (if n < 10 then [digit_char n] else str_nat (n div 10) @ [digit_char (n mod 10)])"

declare str_nat.simps [simp del]

text \<open>\<open>str(n)\<close> for an integer: decimal digits, with a minus sign when negative.\<close>

definition str_int :: "int \<Rightarrow> string" where
  "str_int i = (if i < 0 then CHR ''-'' # str_nat (nat (- i)) else str_nat (nat i))"

text \<open>\<open>str(b)\<close> for a boolean.\<close>

definition str_bool :: "bool \<Rightarrow> string" where
  "str_bool b = (if b then ''True'' else ''False'')"

definition is_digit :: "char \<Rightarrow> bool" where
  "is_digit c = (48 \<le> (of_char c :: nat) \<and> (of_char c :: nat) \<le> 57)"

definition digit_val :: "char \<Rightarrow> nat" where
  "digit_val c = of_char c - 48"

text \<open>The ASCII characters that \<open>int\<close> strips from both ends of a string.\<close>

definition is_space :: "char \<Rightarrow> bool" where
  "is_space c = ((of_char c :: nat) \<in> {9, 10, 11, 12, 13, 28, 29, 30, 31, 32})"

definition strip :: "string \<Rightarrow> string" where
  "strip s = rev (dropWhile is_space (rev (dropWhile is_space s)))"

text \<open>
  Digits after the first: a digit, or an underscore followed by a digit
  (\<open>int("1_000")\<close> is 1000).
\<close>

fun parse_digits :: "nat \<Rightarrow> string \<Rightarrow> nat option" where
  "parse_digits acc [] = Some acc"
| "parse_digits acc [c] = (if is_digit c then Some (10 * acc + digit_val c) else None)"
| "parse_digits acc (c # d # ds) =
     (if is_digit c then parse_digits (10 * acc + digit_val c) (d # ds)
      else if c = CHR ''_'' \<and> is_digit d then parse_digits (10 * acc + digit_val d) ds
      else None)"

definition nat_of_string :: "string \<Rightarrow> nat option" where
  "nat_of_string s =
     (case s of [] \<Rightarrow> None
      | c # cs \<Rightarrow> if is_digit c then parse_digits (digit_val c) cs else None)"

text \<open>
  \<open>int(s)\<close> for a string of ASCII characters: surrounding whitespace is dropped, one
  sign is allowed, the rest must be decimal digits. \<open>None\<close> stands for \<open>ValueError\<close>.
\<close>

definition int_of_string :: "string \<Rightarrow> int option" where
  "int_of_string s =
     (case strip s of
        [] \<Rightarrow> None
      | c # cs \<Rightarrow>
          if c = CHR ''-'' then map_option (\<lambda>n. - int n) (nat_of_string cs)
          else if c = CHR ''+'' then map_option int (nat_of_string cs)
          else map_option int (nat_of_string (c # cs)))"

text \<open>\<open>s.lower()\<close> on ASCII letters.\<close>

definition lower_char :: "char \<Rightarrow> char" where
  "lower_char c =
     (case map_of (zip ''ABCDEFGHIJKLMNOPQRSTUVWXYZ'' ''abcdefghijklmnopqrstuvwxyz'') c of
        Some l \<Rightarrow> l
      | None \<Rightarrow> c)"

definition lower :: "string \<Rightarrow> string" where
  "lower s = map lower_char s"

subsection \<open>The casts \<open>int\<close>, \<open>float\<close> and \<open>str\<close> on values\<close>

text \<open>
  Reading a float from text and printing one depend on the binary floating-point format,
  which the model does not fix: both conversions are parameters of the model.
  \<open>float_of_str\<close> is \<open>float(s)\<close> on a string, with \<open>None\<close> for \<open>ValueError\<close>;
  \<open>str_of_float\<close> is \<open>str(x)\<close> on a float. The conversion of an integer to a float
  is taken as exact, so the rounding and the \<open>OverflowError\<close> of very large integers are
  not in the model.
\<close>

record float_text =
  float_of_str :: "string \<Rightarrow> rat option"
  str_of_float :: "rat \<Rightarrow> string"

text \<open>\<open>int(v)\<close>: a float is truncated towards zero.\<close>

fun py_int :: "pyval \<Rightarrow> exn + pyval" where
  "py_int (PInt n) = Inr (PInt n)"
| "py_int (PFloat r) = Inr (PInt (if r < 0 then - \<lfloor>- r\<rfloor> else \<lfloor>r\<rfloor>))"
| "py_int (PStr s) = (case int_of_string s of None \<Rightarrow> Inl ValueError | Some n \<Rightarrow> Inr (PInt n))"
| "py_int PNone = Inl TypeError"

fun py_float :: "float_text \<Rightarrow> pyval \<Rightarrow> exn + pyval" where
  "py_float F (PInt n) = Inr (PFloat (of_int n))"
| "py_float F (PFloat r) = Inr (PFloat r)"
| "py_float F (PStr s) = (case float_of_str F s of None \<Rightarrow> Inl ValueError | Some r \<Rightarrow> Inr (PFloat r))"
| "py_float F PNone = Inl TypeError"

fun py_str :: "float_text \<Rightarrow> pyval \<Rightarrow> exn + pyval" where
  "py_str F PNone = Inr (PStr ''None'')"
| "py_str F (PInt n) = Inr (PStr (str_int n))"
| "py_str F (PFloat r) = Inr (PStr (str_of_float F r))"
| "py_str F (PStr s) = Inr (PStr s)"

section \<open>custom\_module.py: variables\<close>

text \<open>
  Modelled from the spec: \<open>common.VariableType\<close>, the enumeration of variable types
  (\<open>Int, Float, String, Mode, VirtualInput, PhysicalInput\<close>, and \<open>Bool\<close>, which
  \<open>create_ui_element\<close> names).
\<close>

datatype VariableType =
  VariableType_Int | VariableType_Float | VariableType_String | VariableType_Bool
  | VariableType_Mode | VariableType_VirtualInput | VariableType_PhysicalInput

text \<open>
  \<open>_cast_variable\<close> is a dictionary with the three keys \<open>Int\<close>, \<open>Float\<close> and
  \<open>String\<close>; indexing it with another type raises \<open>KeyError\<close>.
\<close>

fun cast_variable :: "float_text \<Rightarrow> VariableType \<Rightarrow> pyval \<Rightarrow> exn + pyval" where
  "cast_variable F VariableType_Int v = py_int v"
| "cast_variable F VariableType_Float v = py_float F v"
| "cast_variable F VariableType_String v = py_str F v"
| "cast_variable F _ v = Inl KeyError"

definition clamp_value :: "pyval \<Rightarrow> pyval \<Rightarrow> pyval \<Rightarrow> exn + pyval" where
  "clamp_value val min_val max_val =
     (case py_gt min_val max_val of
        Inl e \<Rightarrow> Inl e
      | Inr swap \<Rightarrow>
          (let lo = (if swap then max_val else min_val);
               hi = (if swap then min_val else max_val)
           in case py_max lo val of Inl e \<Rightarrow> Inl e | Inr m \<Rightarrow> py_min hi m))"

text \<open>
  The fields every variable class has: \<open>label\<close>, \<open>description\<close> and \<open>variable_type\<close>
  from \<open>AbstractVariable\<close>, and \<open>value\<close> and \<open>default_value\<close>, which each subclass
  constructor sets. A numerical variable adds its bounds.
\<close>

record AbstractVariable =
  label :: string
  description :: string
  variable_type :: VariableType
  var_value :: pyval
  default_value :: pyval

record NumericalVariable = AbstractVariable +
  min_value :: pyval
  max_value :: pyval

definition init_numerical ::
  "NumericalVariable \<Rightarrow> pyval \<Rightarrow> pyval \<Rightarrow> pyval \<Rightarrow> NumericalVariable" where
  "init_numerical var dflt mn mx =
     var\<lparr> default_value := (if default_value var = PNone then dflt else default_value var),
          min_value := (if min_value var = PNone then mn else min_value var),
          max_value := (if max_value var = PNone then mx else max_value var) \<rparr>"

definition IntegerVariable_initialize_variable :: "NumericalVariable \<Rightarrow> NumericalVariable" where
  "IntegerVariable_initialize_variable var = init_numerical var (PInt 0) (PInt 0) (PInt 10)"

definition FloatVariable_initialize_variable :: "NumericalVariable \<Rightarrow> NumericalVariable" where
  "FloatVariable_initialize_variable var = init_numerical var (PInt 0) (PFloat (- 1)) (PFloat 1)"

text \<open>
  \<open>NumericalVariable._load_from_registry\<close>. The identifier is the pair
  (module, instance name) found in the calling module, or \<open>None\<close>. The result is the
  variable with its value set, or the exception raised, and the registry as the read
  leaves it.
\<close>

definition NumericalVariable_load_from_registry ::
  "float_text \<Rightarrow> registry \<Rightarrow> NumericalVariable \<Rightarrow> (string \<times> string) option
   \<Rightarrow> (exn + NumericalVariable) \<times> registry" where
  "NumericalVariable_load_from_registry F reg var identifier =
     (let (loaded, reg') =
        (case identifier of
           Some (m, n) \<Rightarrow>
             (let (val, reg1) = VariableRegistry_get reg m n (label var)
              in if val = PNone then (Inr (default_value var), reg1)
                 else (cast_variable F (variable_type var) val, reg1))
         | None \<Rightarrow> (Inr (default_value var), reg))
      in case loaded of
           Inl e \<Rightarrow> (Inl e, reg')
         | Inr v \<Rightarrow>
             (case clamp_value v (min_value var) (max_value var) of
                Inl e \<Rightarrow> (Inl e, reg')
              | Inr c \<Rightarrow> (Inr (var\<lparr> var_value := c \<rparr>), reg')))"

text \<open>
  The constructors: the fields are stored, \<open>_initialize_variable\<close> fills in the
  defaults of the subclass, then the value is loaded from the registry.
\<close>

definition NumericalVariable_fields ::
  "string \<Rightarrow> string \<Rightarrow> VariableType \<Rightarrow> pyval \<Rightarrow> pyval \<Rightarrow> pyval \<Rightarrow> NumericalVariable" where
  "NumericalVariable_fields lbl descr vt dflt mn mx =
     \<lparr> label = lbl, description = descr, variable_type = vt, var_value = PNone,
       default_value = dflt, min_value = mn, max_value = mx \<rparr>"

definition IntegerVariable_init ::
  "float_text \<Rightarrow> registry \<Rightarrow> string \<Rightarrow> string \<Rightarrow> pyval \<Rightarrow> pyval \<Rightarrow> pyval
   \<Rightarrow> (string \<times> string) option \<Rightarrow> (exn + NumericalVariable) \<times> registry" where
  "IntegerVariable_init F reg lbl descr dflt mn mx identifier =
     NumericalVariable_load_from_registry F reg
       (IntegerVariable_initialize_variable
          (NumericalVariable_fields lbl descr VariableType_Int dflt mn mx))
       identifier"

definition FloatVariable_init ::
  "float_text \<Rightarrow> registry \<Rightarrow> string \<Rightarrow> string \<Rightarrow> pyval \<Rightarrow> pyval \<Rightarrow> pyval
   \<Rightarrow> (string \<times> string) option \<Rightarrow> (exn + NumericalVariable) \<times> registry" where
  "FloatVariable_init F reg lbl descr dflt mn mx identifier =
     NumericalVariable_load_from_registry F reg
       (FloatVariable_initialize_variable
          (NumericalVariable_fields lbl descr VariableType_Float dflt mn mx))
       identifier"

text \<open>\<open>StringVariable._load_from_registry\<close> casts whatever \<open>get\<close> returns.\<close>

definition StringVariable_load_from_registry ::
  "float_text \<Rightarrow> registry \<Rightarrow> AbstractVariable \<Rightarrow> (string \<times> string) option
   \<Rightarrow> (exn + AbstractVariable) \<times> registry" where
  "StringVariable_load_from_registry F reg var identifier =
     (case identifier of
        Some (m, n) \<Rightarrow>
          (let (val, reg1) = VariableRegistry_get reg m n (label var)
           in case cast_variable F (variable_type var) val of
                Inl e \<Rightarrow> (Inl e, reg1)
              | Inr s \<Rightarrow> (Inr (var\<lparr> var_value := s \<rparr>), reg1))
      | None \<Rightarrow> (Inr (var\<lparr> var_value := default_value var \<rparr>), reg))"

definition StringVariable_init ::
  "float_text \<Rightarrow> registry \<Rightarrow> string \<Rightarrow> string \<Rightarrow> pyval \<Rightarrow> (string \<times> string) option
   \<Rightarrow> (exn + AbstractVariable) \<times> registry" where
  "StringVariable_init F reg lbl descr dflt identifier =
     StringVariable_load_from_registry F reg
       \<lparr> label = lbl, description = descr, variable_type = VariableType_String,
         var_value = PNone, default_value = dflt \<rparr>
       identifier"

text \<open>
  A \<open>float_text\<close> for evaluating the model on inputs in which no float is read from or
  written as text: it reads no string as a float.
\<close>

definition no_float_text :: float_text where
  "no_float_text = \<lparr> float_of_str = (\<lambda>s. None), str_of_float = (\<lambda>x. []) \<rparr>"

section \<open>XML elements\<close>

text \<open>
  An \<open>ElementTree\<close> element: a tag, its attributes in the order they were set, and its
  child elements. The code reads nothing else of a node. Writing the tree to a file
  and parsing the file again gives back the same tags, attributes and children, so the
  text in between is left out of the model.
\<close>

datatype xml = Element (tag: string) (attrib: "(string \<times> string) list") (children: "xml list")

text \<open>\<open>node.get(key)\<close> is \<open>None\<close> for a missing attribute.\<close>

definition xml_get :: "xml \<Rightarrow> string \<Rightarrow> string option" where
  "xml_get node key = map_of (attrib node) key"

definition xml_get_default :: "xml \<Rightarrow> string \<Rightarrow> string \<Rightarrow> string" where
  "xml_get_default node key dflt = (case xml_get node key of None \<Rightarrow> dflt | Some v \<Rightarrow> v)"

definition xml_set :: "xml \<Rightarrow> string \<Rightarrow> string \<Rightarrow> xml" where
  "xml_set node key v = Element (tag node) (AList.update key v (attrib node)) (children node)"

text \<open>
  \<open>node.iter(t)\<close>: the node itself and all its descendants, in document order, that
  carry the tag \<open>t\<close>.
\<close>

fun xml_iter :: "string \<Rightarrow> xml \<Rightarrow> xml list" where
  "xml_iter t (Element tg as cs) =
     (if tg = t then [Element tg as cs] else []) @ concat (map (xml_iter t) cs)"

section \<open>profile.py\<close>

text \<open>
  Modelled from the spec: \<open>gremlin.event_handler.InputType\<close>, the enumeration of
  input types (\<open>JoystickAxis, JoystickButton, JoystickHat, Keyboard\<close>).
\<close>

datatype InputType = JoystickAxis | JoystickButton | JoystickHat | Keyboard

datatype DeviceType = DeviceType_Keyboard | DeviceType_Joystick

definition tag_to_input_type :: "string \<Rightarrow> exn + InputType" where
  "tag_to_input_type tg =
     (case map_of [(''axis'', JoystickAxis), (''button'', JoystickButton),
                   (''hat'', JoystickHat), (''key'', Keyboard)] (lower tg) of
        Some t \<Rightarrow> Inr t
      | None \<Rightarrow> Inl ProfileError)"

text \<open>
  Modelled from the spec: \<open>action.common.input_type_to_tag\<close>, the tag an input type is
  written with (\<open>axis, button, hat, key\<close>).
\<close>

fun input_type_to_tag :: "InputType \<Rightarrow> string" where
  "input_type_to_tag JoystickAxis = ''axis''"
| "input_type_to_tag JoystickButton = ''button''"
| "input_type_to_tag JoystickHat = ''hat''"
| "input_type_to_tag Keyboard = ''key''"

text \<open>
  \<open>_parse_bool\<close>. The argument is what \<open>node.get\<close> returned: a string, or \<open>None\<close>.
  \<open>int(None)\<close> raises \<open>TypeError\<close>, which the function turns into \<open>ProfileError\<close>;
  a string that is no integer is compared, in lower case, with \<open>true\<close> and \<open>false\<close>.
\<close>

definition parse_bool :: "string option \<Rightarrow> exn + bool" where
  "parse_bool val =
     (case val of
        None \<Rightarrow> Inl ProfileError
      | Some s \<Rightarrow>
          (case int_of_string s of
             Some int_value \<Rightarrow>
               if int_value = 0 \<or> int_value = 1 then Inr (int_value = 1) else Inl ProfileError
           | None \<Rightarrow>
               if lower s = ''true'' \<or> lower s = ''false'' then Inr (lower s = ''true'')
               else Inl ProfileError))"

text \<open>\<open>int(node.get(key))\<close>: \<open>TypeError\<close> without the attribute, \<open>ValueError\<close> on text that is no integer.\<close>

definition int_attr :: "xml \<Rightarrow> string \<Rightarrow> exn + int" where
  "int_attr node key =
     (case xml_get node key of
        None \<Rightarrow> Inl TypeError
      | Some s \<Rightarrow> (case int_of_string s of None \<Rightarrow> Inl ValueError | Some n \<Rightarrow> Inr n))"

text \<open>The keys of \<open>action_lookup\<close>.\<close>

definition action_lookup_tags :: "string list" where
  "action_lookup_tags =
     [''macro'', ''remap'', ''response-curve'', ''cycle-modes'', ''pause-action'',
      ''resume-action'', ''switch-mode'', ''switch-to-previous-mode'']"

text \<open>
  The action classes that \<open>action_lookup\<close> maps the tags to are not part of the files
  at hand. They are a parameter: \<open>action_from_xml\<close> stands for constructing the class
  registered under a tag and calling its \<open>from_xml\<close> on the node, \<open>action_to_xml\<close> for
  the \<open>to_xml\<close> of an action.
\<close>

record 'a actions =
  action_from_xml :: "string \<Rightarrow> xml \<Rightarrow> exn + 'a"
  action_to_xml :: "'a \<Rightarrow> xml"

subsection \<open>InputItem\<close>

text \<open>An input identifier: an integer, or the pair (key code, extended) of a key.\<close>

datatype input_id = IdInt int | IdKey int bool

text \<open>
  The constructor's placeholders \<open>None\<close> for \<open>input_type\<close> and \<open>input_id\<close> are
  overwritten by \<open>get_data\<close> and by \<open>from_xml\<close>, the two places that create an item,
  before anything reads them; the record holds the values set there.
\<close>

record 'a InputItem =
  input_type :: InputType
  input_id :: input_id
  always_execute :: bool
  actions :: "'a list"

text \<open>
  The loop over the children of an input element. Besides the actions it returns the
  lines printed for the unknown tags (\<open>print\<close> separates its two arguments by a space).
\<close>

fun parse_actions :: "'a actions \<Rightarrow> xml list \<Rightarrow> exn + ('a list \<times> string list)" where
  "parse_actions A [] = Inr ([], [])"
| "parse_actions A (child # rest) =
     (if tag child \<notin> set action_lookup_tags then
        (case parse_actions A rest of
           Inl e \<Rightarrow> Inl e
         | Inr (acts, out) \<Rightarrow> Inr (acts, (''Unknown node:  '' @ tag child) # out))
      else
        (case action_from_xml A (tag child) child of
           Inl e \<Rightarrow> Inl e
         | Inr entry \<Rightarrow>
             (case parse_actions A rest of
                Inl e \<Rightarrow> Inl e
              | Inr (acts, out) \<Rightarrow> Inr (entry # acts, out))))"

definition InputItem_from_xml :: "'a actions \<Rightarrow> xml \<Rightarrow> exn + ('a InputItem \<times> string list)" where
  "InputItem_from_xml A node =
     (case tag_to_input_type (tag node) of
        Inl e \<Rightarrow> Inl e
      | Inr t \<Rightarrow>
     (case int_attr node ''id'' of
        Inl e \<Rightarrow> Inl e
      | Inr n \<Rightarrow>
     (case parse_bool (Some (xml_get_default node ''always-execute'' ''False'')) of
        Inl e \<Rightarrow> Inl e
      | Inr ae \<Rightarrow>
     (case (if t = Keyboard
            then (case parse_bool (xml_get node ''extended'') of
                    Inl e \<Rightarrow> Inl e
                  | Inr ext \<Rightarrow> Inr (IdKey n ext))
            else Inr (IdInt n)) of
        Inl e \<Rightarrow> Inl e
      | Inr ident \<Rightarrow>
     (case parse_actions A (children node) of
        Inl e \<Rightarrow> Inl e
      | Inr (acts, out) \<Rightarrow>
          Inr (\<lparr> input_type = t, input_id = ident, always_execute = ae, actions = acts \<rparr>,
               out))))))"

text \<open>
  \<open>InputItem.to_xml\<close>. With the input type \<open>Keyboard\<close> the identifier is indexed, which
  raises \<open>TypeError\<close> on an integer; with another type it is written by \<open>str\<close>, which
  prints a pair as \<open>(30, True)\<close>.
\<close>

definition InputItem_to_xml :: "'a actions \<Rightarrow> 'a InputItem \<Rightarrow> exn + xml" where
  "InputItem_to_xml A item =
     (case (if input_type item = Keyboard
            then (case input_id item of
                    IdKey k ext \<Rightarrow> Inr [(''id'', str_int k), (''extended'', str_bool ext)]
                  | IdInt n \<Rightarrow> Inl TypeError)
            else (case input_id item of
                    IdInt n \<Rightarrow> Inr [(''id'', str_int n)]
                  | IdKey k ext \<Rightarrow>
                      Inr [(''id'', ''('' @ str_int k @ '', '' @ str_bool ext @ '')'')])) of
        Inl e \<Rightarrow> Inl e
      | Inr attrs \<Rightarrow>
          Inr (Element (input_type_to_tag (input_type item))
                 (if always_execute item then AList.update ''always-execute'' ''True'' attrs
                  else attrs)
                 (map (action_to_xml A) (actions item))))"

subsection \<open>Mode\<close>

text \<open>
  \<open>_config\<close> has one dictionary per input type, created by the constructor in the order
  axis, button, hat, key; each maps input identifiers to items and keeps the order in
  which the identifiers were first stored.
\<close>

record 'a Mode =
  mode_name :: "string option"
  config :: "InputType \<Rightarrow> (input_id \<times> 'a InputItem) list"

definition Mode_init :: "'a Mode" where
  "Mode_init = \<lparr> mode_name = None, config = (\<lambda>t. []) \<rparr>"

definition config_set :: "'a Mode \<Rightarrow> InputType \<Rightarrow> input_id \<Rightarrow> 'a InputItem \<Rightarrow> 'a Mode" where
  "config_set m t i item = m\<lparr> config := (config m)(t := AList.update i item (config m t)) \<rparr>"

fun Mode_items_from_xml ::
  "'a actions \<Rightarrow> 'a Mode \<Rightarrow> xml list \<Rightarrow> exn + ('a Mode \<times> string list)" where
  "Mode_items_from_xml A m [] = Inr (m, [])"
| "Mode_items_from_xml A m (child # rest) =
     (case InputItem_from_xml A child of
        Inl e \<Rightarrow> Inl e
      | Inr (item, out) \<Rightarrow>
          (case Mode_items_from_xml A (config_set m (input_type item) (input_id item) item) rest of
             Inl e \<Rightarrow> Inl e
           | Inr (m', out') \<Rightarrow> Inr (m', out @ out')))"

definition Mode_from_xml :: "'a actions \<Rightarrow> xml \<Rightarrow> exn + ('a Mode \<times> string list)" where
  "Mode_from_xml A node =
     Mode_items_from_xml A (Mode_init\<lparr> mode_name := xml_get node ''name'' \<rparr>) (children node)"

text \<open>Collecting the results of a list of calls, the first exception ending the run.\<close>

fun collect :: "(exn + 'b) list \<Rightarrow> exn + 'b list" where
  "collect [] = Inr []"
| "collect (r # rs) =
     (case r of
        Inl e \<Rightarrow> Inl e
      | Inr x \<Rightarrow> (case collect rs of Inl e \<Rightarrow> Inl e | Inr xs \<Rightarrow> Inr (x # xs)))"

definition Mode_items :: "'a Mode \<Rightarrow> 'a InputItem list" where
  "Mode_items m =
     concat (map (\<lambda>t. map snd (config m t)) [JoystickAxis, JoystickButton, JoystickHat, Keyboard])"

text \<open>
  \<open>Mode.to_xml\<close>. An attribute set to \<open>None\<close> makes the serialisation of the tree raise
  \<open>TypeError\<close>; the model raises it where the attribute is set.
\<close>

definition Mode_to_xml :: "'a actions \<Rightarrow> 'a Mode \<Rightarrow> exn + xml" where
  "Mode_to_xml A m =
     (case mode_name m of
        None \<Rightarrow> Inl TypeError
      | Some nm \<Rightarrow>
          (case collect (map (InputItem_to_xml A) (Mode_items m)) of
             Inl e \<Rightarrow> Inl e
           | Inr nodes \<Rightarrow> Inr (Element ''mode'' [(''name'', nm)] nodes)))"

text \<open>
  \<open>get_data\<close> returns the item of the slot and the mode as the call leaves it. The
  assertion on the input type holds for every value of the type \<open>InputType\<close>.
\<close>

definition Mode_get_data :: "'a Mode \<Rightarrow> InputType \<Rightarrow> input_id \<Rightarrow> 'a InputItem \<times> 'a Mode" where
  "Mode_get_data m t i =
     (case map_of (config m t) i of
        None \<Rightarrow>
          (let entry = \<lparr> input_type = t, input_id = i, always_execute = False, actions = [] \<rparr>
           in (entry, config_set m t i entry))
      | Some item \<Rightarrow> (item, m))"

definition Mode_set_data :: "'a Mode \<Rightarrow> InputType \<Rightarrow> input_id \<Rightarrow> 'a InputItem \<Rightarrow> 'a Mode" where
  "Mode_set_data m t i item = config_set m t i item"

subsection \<open>Device\<close>

record 'a Device =
  device_name :: "string option"
  hardware_id :: "int option"
  windows_id :: "int option"
  modes :: "(string option \<times> 'a Mode) list"
  device_type :: "DeviceType option"

definition Device_init :: "'a Device" where
  "Device_init =
     \<lparr> device_name = None, hardware_id = None, windows_id = None,
       modes = [(Some ''global'', Mode_init\<lparr> mode_name := Some ''global'' \<rparr>)],
       device_type = None \<rparr>"

text \<open>
  The class \<open>Device\<close> has the attributes \<open>parent\<close>, \<open>name\<close>, \<open>hardware_id\<close>,
  \<open>windows_id\<close>, \<open>modes\<close> and \<open>type\<close>. It has no attribute \<open>index\<close>: reading
  \<open>device.index\<close> raises \<open>AttributeError\<close>.
\<close>

definition Device_index :: "'a Device \<Rightarrow> exn + int" where
  "Device_index d = Inl AttributeError"

fun Device_modes_from_xml ::
  "'a actions \<Rightarrow> 'a Device \<Rightarrow> xml list \<Rightarrow> exn + ('a Device \<times> string list)" where
  "Device_modes_from_xml A d [] = Inr (d, [])"
| "Device_modes_from_xml A d (child # rest) =
     (case Mode_from_xml A child of
        Inl e \<Rightarrow> Inl e
      | Inr (m, out) \<Rightarrow>
          (case Device_modes_from_xml A (d\<lparr> modes := AList.update (mode_name m) m (modes d) \<rparr>) rest of
             Inl e \<Rightarrow> Inl e
           | Inr (d', out') \<Rightarrow> Inr (d', out @ out')))"

definition Device_from_xml :: "'a actions \<Rightarrow> xml \<Rightarrow> exn + ('a Device \<times> string list)" where
  "Device_from_xml A node =
     (case int_attr node ''id'' of
        Inl e \<Rightarrow> Inl e
      | Inr hid \<Rightarrow>
     (case int_attr node ''windows_id'' of
        Inl e \<Rightarrow> Inl e
      | Inr wid \<Rightarrow>
     (let d = Device_init\<lparr> device_name := xml_get node ''name'', hardware_id := Some hid,
                           windows_id := Some wid \<rparr>
      in case (if device_name d = Some ''keyboard''
               then (case Device_index d of
                       Inl e \<Rightarrow> Inl e
                     | Inr idx \<Rightarrow>
                         Inr (if idx = 0 then DeviceType_Keyboard else DeviceType_Joystick))
               else Inr DeviceType_Joystick) of
           Inl e \<Rightarrow> Inl e
         | Inr ty \<Rightarrow> Device_modes_from_xml A (d\<lparr> device_type := Some ty \<rparr>) (children node))))"

definition str_int_option :: "int option \<Rightarrow> string" where
  "str_int_option v = (case v of None \<Rightarrow> ''None'' | Some n \<Rightarrow> str_int n)"

definition Device_to_xml :: "'a actions \<Rightarrow> 'a Device \<Rightarrow> exn + xml" where
  "Device_to_xml A d =
     (case device_name d of
        None \<Rightarrow> Inl TypeError
      | Some nm \<Rightarrow>
          (case collect (map (\<lambda>(k, m). Mode_to_xml A m) (modes d)) of
             Inl e \<Rightarrow> Inl e
           | Inr nodes \<Rightarrow>
               Inr (Element ''device''
                      [(''name'', nm), (''id'', str_int_option (hardware_id d)),
                       (''windows_id'', str_int_option (windows_id d))]
                      nodes)))"

subsection \<open>Profile\<close>

record 'a Profile =
  devices :: "(int \<times> 'a Device) list"
  profile_imports :: "string option list"

definition Profile_init :: "'a Profile" where
  "Profile_init = \<lparr> devices = [], profile_imports = [] \<rparr>"

text \<open>
  What \<open>gremlin.util.joystick_devices()\<close> lists for one attached device, as far as
  \<open>from_xml\<close> reads it.
\<close>

record live_device =
  device_id :: int
  live_name :: string
  live_hardware_id :: int
  live_windows_id :: int
  is_virtual :: bool

text \<open>The loop that creates the modes of a new device.\<close>

fun create_modes :: "string list \<Rightarrow> (string option \<times> 'a Mode) list \<Rightarrow> (string option \<times> 'a Mode) list" where
  "create_modes [] ms = ms"
| "create_modes (mode # rest) ms =
     create_modes rest
       (if Some mode \<notin> fst ` set ms
        then AList.update (Some mode) (Mode_init\<lparr> mode_name := Some mode \<rparr>) ms
        else ms)"

text \<open>
  One round of the loop over the attached devices. \<open>gremlin.util.mode_list\<close> is a
  parameter; it is called once the new device is stored in the profile, so it is given
  the profile in that state and the new device.
\<close>

definition reconcile_device ::
  "('a Profile \<Rightarrow> 'a Device \<Rightarrow> string list) \<Rightarrow> live_device \<Rightarrow> 'a Profile \<Rightarrow> 'a Profile" where
  "reconcile_device mode_list dev p =
     (if \<not> is_virtual dev \<and> device_id dev \<notin> fst ` set (devices p) then
        (let new_device = Device_init\<lparr> device_name := Some (live_name dev),
                                       hardware_id := Some (live_hardware_id dev),
                                       windows_id := Some (live_windows_id dev),
                                       device_type := Some DeviceType_Joystick \<rparr>;
             p1 = p\<lparr> devices := AList.update (device_id dev) new_device (devices p) \<rparr>;
             names = mode_list p1 new_device
         in p1\<lparr> devices := AList.update (device_id dev)
                              (new_device\<lparr> modes := create_modes names (modes new_device) \<rparr>)
                              (devices p1) \<rparr>)
      else p)"

text \<open>The reconciliation pass of \<open>Profile.from_xml\<close>: the loop over the attached devices.\<close>

fun reconcile ::
  "('a Profile \<Rightarrow> 'a Device \<Rightarrow> string list) \<Rightarrow> live_device list \<Rightarrow> 'a Profile \<Rightarrow> 'a Profile" where
  "reconcile mode_list [] p = p"
| "reconcile mode_list (dev # rest) p = reconcile mode_list rest (reconcile_device mode_list dev p)"

text \<open>The first loop of \<open>Profile.from_xml\<close>, over the \<open>device\<close> elements.\<close>

fun Profile_devices_from_xml ::
  "'a actions \<Rightarrow> 'a Profile \<Rightarrow> xml list \<Rightarrow> exn + ('a Profile \<times> string list)" where
  "Profile_devices_from_xml A p [] = Inr (p, [])"
| "Profile_devices_from_xml A p (child # rest) =
     (case Device_from_xml A child of
        Inl e \<Rightarrow> Inl e
      | Inr (device, out) \<Rightarrow>
          (case Device_index device of
             Inl e \<Rightarrow> Inl e
           | Inr idx \<Rightarrow>
               (case Profile_devices_from_xml A
                       (p\<lparr> devices := AList.update idx device (devices p) \<rparr>) rest of
                  Inl e \<Rightarrow> Inl e
                | Inr (p', out') \<Rightarrow> Inr (p', out @ out'))))"

text \<open>
  \<open>Profile.from_xml\<close> on the tree of the file: the devices of the document, the
  reconciliation with the attached devices, then the imports.
\<close>

definition Profile_from_xml ::
  "'a actions \<Rightarrow> live_device list \<Rightarrow> ('a Profile \<Rightarrow> 'a Device \<Rightarrow> string list)
   \<Rightarrow> 'a Profile \<Rightarrow> xml \<Rightarrow> exn + ('a Profile \<times> string list)" where
  "Profile_from_xml A live mode_list p doc =
     (case Profile_devices_from_xml A p (xml_iter ''device'' doc) of
        Inl e \<Rightarrow> Inl e
      | Inr (p1, out) \<Rightarrow>
          (let p2 = reconcile mode_list live p1
           in Inr (p2\<lparr> profile_imports := profile_imports p2 @
                        concat (map (\<lambda>child. map (\<lambda>entry. xml_get entry ''name'') (children child))
                                  (xml_iter ''import'' doc)) \<rparr>,
                   out)))"

text \<open>\<open>Profile.to_xml\<close>, up to the tree that is written to the file.\<close>

definition Profile_to_xml :: "'a actions \<Rightarrow> 'a Profile \<Rightarrow> exn + xml" where
  "Profile_to_xml A p =
     (case collect (map (\<lambda>(k, d). Device_to_xml A d) (devices p)) of
        Inl e \<Rightarrow> Inl e
      | Inr device_nodes \<Rightarrow>
          (case collect (map (\<lambda>entry. case entry of None \<Rightarrow> Inl TypeError
                                        | Some nm \<Rightarrow> Inr (Element ''module'' [(''name'', nm)] []))
                          (profile_imports p)) of
             Inl e \<Rightarrow> Inl e
           | Inr import_nodes \<Rightarrow>
               Inr (Element ''devices'' [(''version'', ''1'')]
                      (device_nodes @ [Element ''import'' [] import_nodes]))))"

text \<open>\<open>get_device_modes\<close>: the device stored for a hardware id, created when missing.\<close>

definition Profile_get_device_modes ::
  "'a Profile \<Rightarrow> int \<Rightarrow> string option \<Rightarrow> 'a Device \<times> 'a Profile" where
  "Profile_get_device_modes p hid nm =
     (case map_of (devices p) hid of
        None \<Rightarrow>
          (let device = Device_init\<lparr> device_name := nm, hardware_id := Some hid,
                                    device_type := Some (if nm = Some ''keyboard''
                                                         then DeviceType_Keyboard
                                                         else DeviceType_Joystick) \<rparr>
           in (device, p\<lparr> devices := AList.update hid device (devices p) \<rparr>))
      | Some device \<Rightarrow> (device, p))"

section \<open>Notions used to state the properties\<close>

text \<open>Whether a child of an input element carries a tag of \<open>action_lookup\<close>.\<close>

definition known_action :: "xml \<Rightarrow> bool" where
  "known_action child = (tag child \<in> set action_lookup_tags)"





text \<open>
  Actions for evaluating the model on concrete documents: an action is kept as the
  node it was read from, and written as that node.
\<close>

definition node_actions :: "xml actions" where
  "node_actions = \<lparr> action_from_xml = (\<lambda>t node. Inr node), action_to_xml = (\<lambda>node. node) \<rparr>"

text \<open>An item as \<open>get_data\<close> creates it.\<close>

definition new_item :: "InputType \<Rightarrow> input_id \<Rightarrow> 'a InputItem" where
  "new_item t i = \<lparr> input_type = t, input_id = i, always_execute = False, actions = [] \<rparr>"

text \<open>A mode as the reconciliation creates it: empty, with its name set.\<close>

definition named_mode :: "string \<Rightarrow> 'a Mode" where
  "named_mode nm = Mode_init\<lparr> mode_name := Some nm \<rparr>"

text \<open>
  The device that the reconciliation creates for an attached device, once the modes
  named in \<open>names\<close> are created in it.
\<close>

definition created_device :: "live_device \<Rightarrow> string list \<Rightarrow> 'a Device" where
  "created_device dev names =
     \<lparr> device_name = Some (live_name dev), hardware_id = Some (live_hardware_id dev),
       windows_id = Some (live_windows_id dev),
       modes = create_modes names [(Some ''global'', named_mode ''global'')],
       device_type = Some DeviceType_Joystick \<rparr>"

text \<open>
  The items, modes and devices for which writing and reading back is examined. An item
  carries a key pair exactly when its input type is \<open>Keyboard\<close>, and each of its actions
  is written under a tag of \<open>action_lookup\<close> and read back from its node as it was. A
  mode has a name, and each of its dictionaries holds every item under that item's own
  input type and identifier, each identifier once. A device has a name other than
  \<open>keyboard\<close>, both identifiers and the type \<open>Joystick\<close>, and holds every mode under
  that mode's name, each name once, the mode \<open>global\<close> first, as the constructor
  creates it.
\<close>

definition wf_item :: "'a actions \<Rightarrow> 'a InputItem \<Rightarrow> bool" where
  "wf_item A item =
     (((input_type item = Keyboard) = (case input_id item of IdKey k e \<Rightarrow> True | IdInt n \<Rightarrow> False))
      \<and> (\<forall>a \<in> set (actions item).
            known_action (action_to_xml A a)
            \<and> action_from_xml A (tag (action_to_xml A a)) (action_to_xml A a) = Inr a))"

definition wf_mode :: "'a actions \<Rightarrow> 'a Mode \<Rightarrow> bool" where
  "wf_mode A m =
     (mode_name m \<noteq> None
      \<and> (\<forall>t. distinct (map fst (config m t))
            \<and> (\<forall>(i, item) \<in> set (config m t).
                  input_type item = t \<and> input_id item = i \<and> wf_item A item)))"

definition wf_device :: "'a actions \<Rightarrow> 'a Device \<Rightarrow> bool" where
  "wf_device A d =
     (device_name d \<noteq> None \<and> device_name d \<noteq> Some ''keyboard''
      \<and> hardware_id d \<noteq> None \<and> windows_id d \<noteq> None
      \<and> device_type d = Some DeviceType_Joystick
      \<and> distinct (map fst (modes d))
      \<and> (\<forall>(k, m) \<in> set (modes d). mode_name m = k \<and> wf_mode A m)
      \<and> (case modes d of [] \<Rightarrow> False | (k, m) # rest \<Rightarrow> k = Some ''global''))"

text \<open>
  The steps of the loops of \<open>Mode.from_xml\<close> and \<open>Device.from_xml\<close>: an item is stored
  under its own input type and identifier, a mode under the given name.
\<close>

definition store :: "'a Mode \<Rightarrow> 'a InputItem \<Rightarrow> 'a Mode" where
  "store m item = config_set m (input_type item) (input_id item) item"

definition store_mode :: "'a Device \<Rightarrow> string option \<times> 'a Mode \<Rightarrow> 'a Device" where
  "store_mode d km = d\<lparr> modes := AList.update (fst km) (snd km) (modes d) \<rparr>"

section \<open>Properties of the registry\<close>

lemma get_instance_present:
  "reg modul = Some insts \<Longrightarrow> insts name = Some vars \<Longrightarrow>
   VariableRegistry_get_instance reg modul name = (vars, reg)"
  by (simp add: VariableRegistry_get_instance_def Let_def fun_upd_idem)

lemma get_instance_stored:
  "stored (snd (VariableRegistry_get_instance reg modul name)) m n k = stored reg m n k"
  by (auto simp: VariableRegistry_get_instance_def stored_def Let_def split: option.splits)

lemma get_instance_result:
  "fst (VariableRegistry_get_instance reg modul name) k = stored reg modul name k"
  by (auto simp: VariableRegistry_get_instance_def stored_def Let_def split: option.splits)

text \<open>
  C3. As stated the claim fails: a read of an absent key changes the registry. What holds:
  \<open>get\<close> returns the stored value, or \<open>None\<close> when there is none; no key triple
  stores anything different afterwards, so no label-to-value entry is created, changed
  or removed; the registry itself is unchanged when the module and the instance are
  already present, and otherwise gains exactly the missing module and instance levels,
  the instance's dictionary being empty.
\<close>

theorem VariableRegistry_get_reads_and_vivifies:
  "fst (VariableRegistry_get reg m n k) = (case stored reg m n k of Some v \<Rightarrow> v | None \<Rightarrow> PNone)
   \<and> stored (snd (VariableRegistry_get reg m n k)) m' n' k' = stored reg m' n' k'
   \<and> snd (VariableRegistry_get reg m n k) =
       (case reg m of
          None \<Rightarrow> reg(m \<mapsto> [n \<mapsto> Map.empty])
        | Some insts \<Rightarrow>
            (case insts n of None \<Rightarrow> reg(m \<mapsto> insts(n \<mapsto> Map.empty)) | Some vars \<Rightarrow> reg))"
proof (intro conjI)
  show "fst (VariableRegistry_get reg m n k) = (case stored reg m n k of Some v \<Rightarrow> v | None \<Rightarrow> PNone)"
    using get_instance_result [of reg m n k]
    by (simp add: VariableRegistry_get_def split_beta)
  show "stored (snd (VariableRegistry_get reg m n k)) m' n' k' = stored reg m' n' k'"
    using get_instance_stored [of reg m n m' n' k']
    by (simp add: VariableRegistry_get_def split_beta)
  show "snd (VariableRegistry_get reg m n k) =
       (case reg m of
          None \<Rightarrow> reg(m \<mapsto> [n \<mapsto> Map.empty])
        | Some insts \<Rightarrow>
            (case insts n of None \<Rightarrow> reg(m \<mapsto> insts(n \<mapsto> Map.empty)) | Some vars \<Rightarrow> reg))"
    by (auto simp: VariableRegistry_get_def VariableRegistry_get_instance_def Let_def
          fun_upd_idem split: option.splits)
qed

text \<open>
  C3, the claim as stated refuted: reading the key \<open>(m, i, x)\<close> from the empty registry
  returns \<open>None\<close> and leaves a registry that is not the empty one: it has the module \<open>m\<close>.
\<close>

theorem VariableRegistry_get_creates_levels:
  "fst (VariableRegistry_get VariableRegistry_init ''m'' ''i'' ''x'') = PNone
   \<and> snd (VariableRegistry_get VariableRegistry_init ''m'' ''i'' ''x'') \<noteq> VariableRegistry_init
   \<and> snd (VariableRegistry_get VariableRegistry_init ''m'' ''i'' ''x'') ''m'' \<noteq> None"
proof -
  have r: "snd (VariableRegistry_get VariableRegistry_init ''m'' ''i'' ''x'') ''m''
           = Some [''i'' \<mapsto> Map.empty]"
    by (simp add: VariableRegistry_get_def VariableRegistry_get_instance_def
          VariableRegistry_init_def Let_def)
  have "VariableRegistry_init ''m'' = None"
    by (simp add: VariableRegistry_init_def)
  with r have "snd (VariableRegistry_get VariableRegistry_init ''m'' ''i'' ''x'') \<noteq> VariableRegistry_init"
    by (metis option.distinct(1))
  moreover have "fst (VariableRegistry_get VariableRegistry_init ''m'' ''i'' ''x'') = PNone"
    by (simp add: VariableRegistry_get_def VariableRegistry_get_instance_def
          VariableRegistry_init_def Let_def)
  ultimately show ?thesis using r by simp
qed

text \<open>
  C6. After \<open>set(m, i, label, v)\<close> the registry stores \<open>v\<close> at the key triple, whatever
  levels were missing before, and \<open>get(m, i, label)\<close> returns \<open>v\<close>; after \<open>clear()\<close>,
  \<open>get\<close> returns \<open>None\<close> for every key triple.
\<close>

theorem VariableRegistry_set_get_clear:
  "stored (VariableRegistry_set reg m n k v) m n k = Some v
   \<and> fst (VariableRegistry_get (VariableRegistry_set reg m n k v) m n k) = v
   \<and> fst (VariableRegistry_get (VariableRegistry_clear reg) m' n' k') = PNone"
proof -
  have s: "stored (VariableRegistry_set reg m n k v) m n k = Some v"
    by (simp add: VariableRegistry_set_def VariableRegistry_get_instance_def stored_def
          Let_def split: option.splits)
  have g: "\<And>r a b c. fst (VariableRegistry_get r a b c)
             = (case stored r a b c of Some v \<Rightarrow> v | None \<Rightarrow> PNone)"
    using get_instance_result by (simp add: VariableRegistry_get_def split_beta)
  have c: "stored (VariableRegistry_clear reg) m' n' k' = None"
    by (simp add: VariableRegistry_clear_def stored_def)
  show ?thesis using s c by (simp add: g)
qed

section \<open>Printing and reading integers\<close>

text \<open>
  \<open>int(str(n))\<close> is \<open>n\<close>: the identifiers that \<open>to_xml\<close> writes with \<open>str\<close> are read
  back by \<open>int\<close>.
\<close>

lemma digit_char_props:
  assumes "d < 10"
  shows "is_digit (digit_char d)" "digit_val (digit_char d) = d" "\<not> is_space (digit_char d)"
    "digit_char d \<noteq> CHR ''-''" "digit_char d \<noteq> CHR ''+''"
proof -
  from assms have "d \<in> {0, 1, 2, 3, 4, 5, 6, 7, 8, 9}" by auto
  then have "is_digit (digit_char d) \<and> digit_val (digit_char d) = d \<and> \<not> is_space (digit_char d)
     \<and> digit_char d \<noteq> CHR ''-'' \<and> digit_char d \<noteq> CHR ''+''"
    by (elim insertE) (simp_all add: digit_char_def is_digit_def digit_val_def is_space_def)
  then show "is_digit (digit_char d)" "digit_val (digit_char d) = d" "\<not> is_space (digit_char d)"
    "digit_char d \<noteq> CHR ''-''" "digit_char d \<noteq> CHR ''+''" by simp_all
qed

lemma str_nat_digits: "c \<in> set (str_nat n) \<Longrightarrow> \<exists>d<10. c = digit_char d"
proof (induction n arbitrary: c rule: str_nat.induct)
  case (1 n)
  show ?case
  proof (cases "n < 10")
    case True
    with "1.prems" show ?thesis by (auto simp: str_nat.simps [of n])
  next
    case False
    with "1.prems" have "c \<in> set (str_nat (n div 10)) \<or> c = digit_char (n mod 10)"
      by (auto simp: str_nat.simps [of n])
    then show ?thesis
    proof
      assume "c \<in> set (str_nat (n div 10))"
      with False "1.IH" show ?thesis by blast
    next
      assume "c = digit_char (n mod 10)"
      moreover have "n mod 10 < 10" by simp
      ultimately show ?thesis by blast
    qed
  qed
qed

lemma str_nat_not_Nil: "str_nat n \<noteq> []"
  by (subst str_nat.simps) simp

lemma parse_digits_all_digits:
  "\<forall>c \<in> set cs. is_digit c \<Longrightarrow>
   parse_digits acc cs = Some (foldl (\<lambda>a c. 10 * a + digit_val c) acc cs)"
  by (induction acc cs rule: parse_digits.induct) simp_all

lemma foldl_str_nat: "foldl (\<lambda>a c. 10 * a + digit_val c) 0 (str_nat n) = n"
proof (induction n rule: str_nat.induct)
  case (1 n)
  show ?case
  proof (cases "n < 10")
    case True
    then show ?thesis by (simp add: str_nat.simps [of n] digit_char_props)
  next
    case False
    have "n mod 10 < 10" by simp
    with False "1.IH" show ?thesis
      by (simp add: str_nat.simps [of n] digit_char_props)
  qed
qed

lemma nat_of_string_str_nat: "nat_of_string (str_nat n) = Some n"
proof -
  obtain c cs where s: "str_nat n = c # cs"
    using str_nat_not_Nil [of n] by (cases "str_nat n") auto
  have d: "\<forall>x \<in> set (c # cs). is_digit x"
    using str_nat_digits [of _ n] digit_char_props(1) unfolding s [symmetric] by blast
  then have p: "parse_digits (digit_val c) cs
                = Some (foldl (\<lambda>a c. 10 * a + digit_val c) (digit_val c) cs)"
    by (intro parse_digits_all_digits) simp
  have "foldl (\<lambda>a c. 10 * a + digit_val c) (digit_val c) cs = n"
    using foldl_str_nat [of n] by (simp add: s)
  with p d show ?thesis by (simp add: nat_of_string_def s)
qed

lemma strip_id:
  assumes "s \<noteq> []" "\<not> is_space (hd s)" "\<not> is_space (last s)"
  shows "strip s = s"
proof -
  from assms(1,2) have a: "dropWhile is_space s = s" by (cases s) auto
  from assms(1,3) have "dropWhile is_space (rev s) = rev s"
    by (cases "rev s") (auto simp: hd_rev [symmetric] simp del: hd_rev)
  with a show ?thesis by (simp add: strip_def)
qed

lemma str_nat_ends:
  "\<not> is_space (hd (str_nat n))" "\<not> is_space (last (str_nat n))"
  "hd (str_nat n) \<noteq> CHR ''-''" "hd (str_nat n) \<noteq> CHR ''+''"
proof -
  have h: "hd (str_nat n) \<in> set (str_nat n)" "last (str_nat n) \<in> set (str_nat n)"
    using str_nat_not_Nil [of n] by simp_all
  from str_nat_digits [OF h(1)] obtain d where d: "d < 10" "hd (str_nat n) = digit_char d"
    by blast
  from str_nat_digits [OF h(2)] obtain d' where d': "d' < 10" "last (str_nat n) = digit_char d'"
    by blast
  show "\<not> is_space (hd (str_nat n))" "hd (str_nat n) \<noteq> CHR ''-''"
    "hd (str_nat n) \<noteq> CHR ''+''"
    using digit_char_props [OF d(1)] by (simp_all add: d(2))
  show "\<not> is_space (last (str_nat n))"
    using digit_char_props [OF d'(1)] by (simp add: d'(2))
qed

lemma int_of_string_str_int: "int_of_string (str_int i) = Some i"
proof (cases "i < 0")
  case True
  have "\<not> is_space CHR ''-''" by (simp add: is_space_def)
  then have "strip (CHR ''-'' # str_nat (nat (- i))) = CHR ''-'' # str_nat (nat (- i))"
    using str_nat_ends(2) [of "nat (- i)"] str_nat_not_Nil [of "nat (- i)"]
    by (intro strip_id) simp_all
  with True show ?thesis
    by (simp add: int_of_string_def str_int_def nat_of_string_str_nat)
next
  case False
  obtain c cs where s: "str_nat (nat i) = c # cs"
    using str_nat_not_Nil [of "nat i"] by (cases "str_nat (nat i)") auto
  have "strip (str_nat (nat i)) = str_nat (nat i)"
    using str_nat_ends [of "nat i"] str_nat_not_Nil [of "nat i"] by (intro strip_id)
  moreover have "c \<noteq> CHR ''-''" "c \<noteq> CHR ''+''"
    using str_nat_ends(3,4) [of "nat i"] by (simp_all add: s)
  moreover have "nat_of_string (c # cs) = Some (nat i)"
    using nat_of_string_str_nat [of "nat i"] by (simp add: s)
  ultimately show ?thesis using False
    by (simp add: int_of_string_def str_int_def s)
qed

section \<open>Properties of the variables\<close>

lemma init_numerical_fields:
  "default_value (init_numerical var dflt mn mx)
     = (if default_value var = PNone then dflt else default_value var)"
  "min_value (init_numerical var dflt mn mx)
     = (if min_value var = PNone then mn else min_value var)"
  "max_value (init_numerical var dflt mn mx)
     = (if max_value var = PNone then mx else max_value var)"
  by (simp_all add: init_numerical_def)

lemma load_keeps_declaration:
  assumes "fst (NumericalVariable_load_from_registry F reg var ident) = Inr v"
  shows "default_value v = default_value var \<and> min_value v = min_value var
         \<and> max_value v = max_value var \<and> label v = label var
         \<and> variable_type v = variable_type var"
  using assms
  by (auto simp: NumericalVariable_load_from_registry_def Let_def split_beta
        split: option.splits sum.splits if_splits)

text \<open>
  C8. A variable that the \<open>IntegerVariable\<close> constructor returns has default 0,
  minimum 0 and maximum 10 wherever the declaration left the field unset (\<open>None\<close>),
  and a \<open>FloatVariable\<close> has default 0, minimum -1.0 and maximum 1.0; a field the
  declaration supplied is kept as it is.
\<close>

theorem numeric_defaults:
  "(fst (IntegerVariable_init F reg lbl descr dflt mn mx ident) = Inr v \<longrightarrow>
      default_value v = (if dflt = PNone then PInt 0 else dflt)
      \<and> min_value v = (if mn = PNone then PInt 0 else mn)
      \<and> max_value v = (if mx = PNone then PInt 10 else mx))
   \<and> (fst (FloatVariable_init F reg lbl descr dflt mn mx ident) = Inr w \<longrightarrow>
      default_value w = (if dflt = PNone then PInt 0 else dflt)
      \<and> min_value w = (if mn = PNone then PFloat (- 1) else mn)
      \<and> max_value w = (if mx = PNone then PFloat 1 else mx))"
proof (intro conjI impI)
  assume "fst (IntegerVariable_init F reg lbl descr dflt mn mx ident) = Inr v"
  then have k: "default_value v = default_value (IntegerVariable_initialize_variable
                   (NumericalVariable_fields lbl descr VariableType_Int dflt mn mx))
      \<and> min_value v = min_value (IntegerVariable_initialize_variable
                   (NumericalVariable_fields lbl descr VariableType_Int dflt mn mx))
      \<and> max_value v = max_value (IntegerVariable_initialize_variable
                   (NumericalVariable_fields lbl descr VariableType_Int dflt mn mx))"
    unfolding IntegerVariable_init_def using load_keeps_declaration by blast
  show "default_value v = (if dflt = PNone then PInt 0 else dflt)"
    using k by (simp add: IntegerVariable_initialize_variable_def init_numerical_fields
          NumericalVariable_fields_def)
  show "min_value v = (if mn = PNone then PInt 0 else mn)"
    using k by (simp add: IntegerVariable_initialize_variable_def init_numerical_fields
          NumericalVariable_fields_def)
  show "max_value v = (if mx = PNone then PInt 10 else mx)"
    using k by (simp add: IntegerVariable_initialize_variable_def init_numerical_fields
          NumericalVariable_fields_def)
next
  assume "fst (FloatVariable_init F reg lbl descr dflt mn mx ident) = Inr w"
  then have k: "default_value w = default_value (FloatVariable_initialize_variable
                   (NumericalVariable_fields lbl descr VariableType_Float dflt mn mx))
      \<and> min_value w = min_value (FloatVariable_initialize_variable
                   (NumericalVariable_fields lbl descr VariableType_Float dflt mn mx))
      \<and> max_value w = max_value (FloatVariable_initialize_variable
                   (NumericalVariable_fields lbl descr VariableType_Float dflt mn mx))"
    unfolding FloatVariable_init_def using load_keeps_declaration by blast
  show "default_value w = (if dflt = PNone then PInt 0 else dflt)"
    using k by (simp add: FloatVariable_initialize_variable_def init_numerical_fields
          NumericalVariable_fields_def)
  show "min_value w = (if mn = PNone then PFloat (- 1) else mn)"
    using k by (simp add: FloatVariable_initialize_variable_def init_numerical_fields
          NumericalVariable_fields_def)
  show "max_value w = (if mx = PNone then PFloat 1 else mx)"
    using k by (simp add: FloatVariable_initialize_variable_def init_numerical_fields
          NumericalVariable_fields_def)
qed

text \<open>
  C8 at a declaration with every field unset and no identifier in scope: both
  constructors return, with the built-in defaults and the value 0.
\<close>

theorem numeric_defaults_witness:
  "fst (IntegerVariable_init no_float_text VariableRegistry_init ''x'' ''d'' PNone PNone PNone None)
     = Inr \<lparr> label = ''x'', description = ''d'', variable_type = VariableType_Int,
             var_value = PInt 0, default_value = PInt 0, min_value = PInt 0,
             max_value = PInt 10 \<rparr>
   \<and> fst (FloatVariable_init no_float_text VariableRegistry_init ''x'' ''d'' PNone PNone PNone None)
     = Inr \<lparr> label = ''x'', description = ''d'', variable_type = VariableType_Float,
             var_value = PInt 0, default_value = PInt 0, min_value = PFloat (- 1),
             max_value = PFloat 1 \<rparr>"
proof -
  have i: "fst (IntegerVariable_init no_float_text VariableRegistry_init ''x'' ''d'' PNone PNone PNone None)
     = Inr \<lparr> label = ''x'', description = ''d'', variable_type = VariableType_Int,
             var_value = PInt 0, default_value = PInt 0, min_value = PInt 0,
             max_value = PInt 10 \<rparr>"
    by (simp add: IntegerVariable_init_def NumericalVariable_load_from_registry_def
          IntegerVariable_initialize_variable_def init_numerical_def
          NumericalVariable_fields_def clamp_value_def py_gt_def py_max_def py_min_def)
  have f: "fst (FloatVariable_init no_float_text VariableRegistry_init ''x'' ''d'' PNone PNone PNone None)
     = Inr \<lparr> label = ''x'', description = ''d'', variable_type = VariableType_Float,
             var_value = PInt 0, default_value = PInt 0, min_value = PFloat (- 1),
             max_value = PFloat 1 \<rparr>"
    by (simp add: FloatVariable_init_def NumericalVariable_load_from_registry_def
          FloatVariable_initialize_variable_def init_numerical_def
          NumericalVariable_fields_def clamp_value_def py_gt_def py_max_def py_min_def)
  from i f numeric_defaults [of no_float_text VariableRegistry_init "''x''" "''d''" PNone PNone PNone None]
  show ?thesis by simp
qed

lemma get_absent:
  "stored reg m n k = None \<Longrightarrow> fst (VariableRegistry_get reg m n k) = PNone"
  using get_instance_result [of reg m n k]
  by (simp add: VariableRegistry_get_def split_beta)


text \<open>
  C10. With an identifier in scope and nothing stored under the variable's label, a
  \<open>StringVariable\<close> gets the value \<open>str(None)\<close>, the string \<open>"None"\<close>, whatever its
  declared default is; a numerical variable in the same situation gets its declared
  default, passed through \<open>clamp_value\<close>.
\<close>

theorem string_variable_absent_value:
  assumes "stored reg m n lbl = None"
  shows "fst (StringVariable_init F reg lbl descr dflt (Some (m, n)))
           = Inr \<lparr> label = lbl, description = descr, variable_type = VariableType_String,
                   var_value = PStr ''None'', default_value = dflt \<rparr>
         \<and> (label var = lbl \<longrightarrow>
              fst (NumericalVariable_load_from_registry F reg var (Some (m, n)))
                = (case clamp_value (default_value var) (min_value var) (max_value var) of
                     Inl e \<Rightarrow> Inl e
                   | Inr c \<Rightarrow> Inr (var\<lparr> var_value := c \<rparr>)))"
proof (intro conjI impI)
  from assms have g: "fst (VariableRegistry_get reg m n lbl) = PNone"
    by (rule get_absent)
  show "fst (StringVariable_init F reg lbl descr dflt (Some (m, n)))
           = Inr \<lparr> label = lbl, description = descr, variable_type = VariableType_String,
                   var_value = PStr ''None'', default_value = dflt \<rparr>"
    using g by (simp add: StringVariable_init_def StringVariable_load_from_registry_def
          split_beta)
  assume "label var = lbl"
  with g show "fst (NumericalVariable_load_from_registry F reg var (Some (m, n)))
                = (case clamp_value (default_value var) (min_value var) (max_value var) of
                     Inl e \<Rightarrow> Inl e
                   | Inr c \<Rightarrow> Inr (var\<lparr> var_value := c \<rparr>))"
    by (simp add: NumericalVariable_load_from_registry_def split_beta split: sum.splits)
qed

text \<open>
  C10 on the empty registry: a string variable declared with the default \<open>"abc"\<close> gets
  the value \<open>"None"\<close>, and an integer variable declared with the default 7 in the range
  0 to 10 gets the value 7.
\<close>

theorem string_variable_absent_value_witness:
  "stored VariableRegistry_init ''m'' ''i'' ''x'' = None
   \<and> fst (StringVariable_init no_float_text VariableRegistry_init ''x'' ''d'' (PStr ''abc'')
            (Some (''m'', ''i'')))
       = Inr \<lparr> label = ''x'', description = ''d'', variable_type = VariableType_String,
               var_value = PStr ''None'', default_value = PStr ''abc'' \<rparr>
   \<and> fst (NumericalVariable_load_from_registry no_float_text VariableRegistry_init
            (NumericalVariable_fields ''x'' ''d'' VariableType_Int (PInt 7) (PInt 0) (PInt 10))
            (Some (''m'', ''i'')))
       = Inr \<lparr> label = ''x'', description = ''d'', variable_type = VariableType_Int,
               var_value = PInt 7, default_value = PInt 7, min_value = PInt 0,
               max_value = PInt 10 \<rparr>"
proof -
  have s: "stored VariableRegistry_init ''m'' ''i'' ''x'' = None"
    by (simp add: stored_def VariableRegistry_init_def)
  have l: "label (NumericalVariable_fields ''x'' ''d'' VariableType_Int (PInt 7) (PInt 0) (PInt 10)) = ''x''"
    by (simp add: NumericalVariable_fields_def)
  have c: "clamp_value (PInt 7) (PInt 0) (PInt 10) = Inr (PInt 7)"
    by (simp add: clamp_value_def py_gt_def py_max_def py_min_def)
  from string_variable_absent_value [OF s, of no_float_text "''d''" "PStr ''abc''"
      "NumericalVariable_fields ''x'' ''d'' VariableType_Int (PInt 7) (PInt 0) (PInt 10)"] l
  have "fst (StringVariable_init no_float_text VariableRegistry_init ''x'' ''d'' (PStr ''abc'')
            (Some (''m'', ''i'')))
       = Inr \<lparr> label = ''x'', description = ''d'', variable_type = VariableType_String,
               var_value = PStr ''None'', default_value = PStr ''abc'' \<rparr>"
    and "fst (NumericalVariable_load_from_registry no_float_text VariableRegistry_init
            (NumericalVariable_fields ''x'' ''d'' VariableType_Int (PInt 7) (PInt 0) (PInt 10))
            (Some (''m'', ''i'')))
       = (case clamp_value (PInt 7) (PInt 0) (PInt 10) of
            Inl e \<Rightarrow> Inl e
          | Inr c \<Rightarrow> Inr ((NumericalVariable_fields ''x'' ''d'' VariableType_Int (PInt 7) (PInt 0) (PInt 10))
                            \<lparr> var_value := c \<rparr>))"
    by (simp_all add: NumericalVariable_fields_def)
  then show ?thesis using s c by (simp add: NumericalVariable_fields_def)
qed





section \<open>Properties of modes and input items\<close>

lemma update_absent: "map_of al k = None \<Longrightarrow> AList.update k v al = al @ [(k, v)]"
  by (induction al) (auto split: if_splits)

lemma update_present: "map_of al k = Some v \<Longrightarrow> AList.update k v al = al"
  by (induction al) (auto split: if_splits)

text \<open>
  C7. \<open>get_data(t, i)\<close> returns the item stored at the slot, or a new empty item with
  that input type and identifier when the slot is empty; a second call returns the same
  item and leaves the mode as the first call left it. The first call changes nothing
  but the slot it creates: the name is kept, the other input types keep their
  dictionaries, and every other slot keeps its item.
\<close>

theorem Mode_get_data_twice:
  "(case Mode_get_data m t i of
      (x, m1) \<Rightarrow>
        Mode_get_data m1 t i = (x, m1)
        \<and> x = (case map_of (config m t) i of Some item \<Rightarrow> item | None \<Rightarrow> new_item t i)
        \<and> mode_name m1 = mode_name m
        \<and> config m1 t' = (if t' = t \<and> map_of (config m t) i = None
                            then config m t @ [(i, new_item t i)] else config m t')
        \<and> map_of (config m1 t') i' = (if t' = t \<and> i' = i then Some x else map_of (config m t') i'))"
proof (cases "map_of (config m t) i")
  case None
  define m1 where "m1 = m\<lparr> config := (config m)(t := config m t @ [(i, new_item t i)]) \<rparr>"
  have g: "Mode_get_data m t i = (new_item t i, m1)"
    by (simp add: Mode_get_data_def config_set_def new_item_def update_absent None m1_def Let_def)
  have l: "map_of (config m1 t) i = Some (new_item t i)"
    by (simp add: m1_def map_add_def None)
  have g2: "Mode_get_data m1 t i = (new_item t i, m1)"
    unfolding Mode_get_data_def l by simp
  have n: "mode_name m1 = mode_name m"
    by (simp add: m1_def)
  have c: "config m1 t' = (if t' = t \<and> map_of (config m t) i = None
                            then config m t @ [(i, new_item t i)] else config m t')"
    by (simp add: m1_def None)
  have s: "map_of (config m1 t') i'
           = (if t' = t \<and> i' = i then Some (new_item t i) else map_of (config m t') i')"
    by (auto simp: m1_def map_add_def None split: option.splits)
  show ?thesis
    unfolding g using g2 n c s by (simp add: None)
next
  case (Some item)
  then show ?thesis
    by (auto simp: Mode_get_data_def)
qed

lemma parse_bool_literals:
  "parse_bool (Some ''True'') = Inr True" "parse_bool (Some ''False'') = Inr False"
  by (simp_all add: parse_bool_def int_of_string_def strip_def is_space_def nat_of_string_def
        is_digit_def lower_def lower_char_def)

lemma parse_bool_str_bool: "parse_bool (Some (str_bool b)) = Inr b"
  by (cases b) (simp_all add: str_bool_def parse_bool_literals)

lemma tag_to_input_type_inverse: "tag_to_input_type (input_type_to_tag t) = Inr t"
  by (cases t) (simp_all add: tag_to_input_type_def lower_def lower_char_def)

lemma InputItem_to_xml_flag:
  assumes "InputItem_to_xml A item = Inr node"
  shows "xml_get node ''always-execute'' = (if always_execute item then Some ''True'' else None)"
  using assms
  by (auto simp: InputItem_to_xml_def xml_get_def split: if_splits input_id.splits)

lemma InputItem_from_xml_flag:
  assumes "InputItem_from_xml A node = Inr (item, out)"
  shows "parse_bool (Some (xml_get_default node ''always-execute'' ''False'')) = Inr (always_execute item)"
  using assms
  by (auto simp: InputItem_from_xml_def split: sum.splits if_splits)

text \<open>
  C9. The node that \<open>InputItem.to_xml\<close> returns has the attribute \<open>always-execute\<close>
  exactly when the flag is set, and then with the value \<open>True\<close>; \<open>InputItem.from_xml\<close>
  reads a node without the attribute as an item whose flag is \<open>False\<close>; and an item
  read back from the node it was written to has the flag it had.
\<close>

theorem always_execute_by_absence:
  "(InputItem_to_xml A item = Inr node \<longrightarrow>
      xml_get node ''always-execute'' = (if always_execute item then Some ''True'' else None))
   \<and> (xml_get node' ''always-execute'' = None \<and> InputItem_from_xml A node' = Inr (item', out')
        \<longrightarrow> \<not> always_execute item')
   \<and> (InputItem_to_xml A item = Inr node \<and> InputItem_from_xml A node = Inr (item'', out'')
        \<longrightarrow> always_execute item'' = always_execute item)"
proof (intro conjI impI)
  assume "InputItem_to_xml A item = Inr node"
  then show "xml_get node ''always-execute'' = (if always_execute item then Some ''True'' else None)"
    by (rule InputItem_to_xml_flag)
next
  assume a: "xml_get node' ''always-execute'' = None \<and> InputItem_from_xml A node' = Inr (item', out')"
  then have "parse_bool (Some (xml_get_default node' ''always-execute'' ''False''))
             = Inr (always_execute item')"
    using InputItem_from_xml_flag by blast
  with a show "\<not> always_execute item'"
    by (simp add: xml_get_default_def parse_bool_literals)
next
  assume a: "InputItem_to_xml A item = Inr node \<and> InputItem_from_xml A node = Inr (item'', out'')"
  then have g: "xml_get node ''always-execute'' = (if always_execute item then Some ''True'' else None)"
    using InputItem_to_xml_flag by blast
  from a have "parse_bool (Some (xml_get_default node ''always-execute'' ''False''))
               = Inr (always_execute item'')"
    using InputItem_from_xml_flag by blast
  with g show "always_execute item'' = always_execute item"
    by (simp add: xml_get_default_def parse_bool_literals split: if_splits)
qed

text \<open>
  C9 on a button and on a key: without the flag the node has no \<open>always-execute\<close>
  attribute, with the flag it has the value \<open>True\<close>, and both items are read back as
  they were.
\<close>

theorem always_execute_by_absence_witness:
  "InputItem_to_xml node_actions
       \<lparr> input_type = JoystickButton, input_id = IdInt 3, always_execute = False, actions = [] \<rparr>
     = Inr (Element ''button'' [(''id'', ''3'')] [])
   \<and> xml_get (Element ''button'' [(''id'', ''3'')] []) ''always-execute'' = None
   \<and> InputItem_from_xml node_actions (Element ''button'' [(''id'', ''3'')] [])
     = Inr (\<lparr> input_type = JoystickButton, input_id = IdInt 3, always_execute = False,
               actions = [] \<rparr>, [])
   \<and> InputItem_to_xml node_actions
       \<lparr> input_type = Keyboard, input_id = IdKey 30 True, always_execute = True, actions = [] \<rparr>
     = Inr (Element ''key'' [(''id'', ''30''), (''extended'', ''True''), (''always-execute'', ''True'')] [])
   \<and> InputItem_from_xml node_actions
       (Element ''key'' [(''id'', ''30''), (''extended'', ''True''), (''always-execute'', ''True'')] [])
     = Inr (\<lparr> input_type = Keyboard, input_id = IdKey 30 True, always_execute = True,
               actions = [] \<rparr>, [])"
proof -
  let ?b = "\<lparr> input_type = JoystickButton, input_id = IdInt 3, always_execute = False,
               actions = ([] :: xml list) \<rparr>"
  let ?k = "\<lparr> input_type = Keyboard, input_id = IdKey 30 True, always_execute = True,
               actions = ([] :: xml list) \<rparr>"
  have s: "str_int 3 = ''3''" "str_int 30 = ''30''"
    by (simp_all add: str_int_def str_nat.simps digit_char_def)
  have i: "int_of_string ''3'' = Some 3" "int_of_string ''30'' = Some 30"
    using int_of_string_str_int [of 3] int_of_string_str_int [of 30] by (simp_all add: s)
  have wb: "InputItem_to_xml node_actions ?b = Inr (Element ''button'' [(''id'', ''3'')] [])"
    by (simp add: InputItem_to_xml_def s)
  have rb: "InputItem_from_xml node_actions (Element ''button'' [(''id'', ''3'')] []) = Inr (?b, [])"
    by (simp add: InputItem_from_xml_def tag_to_input_type_def lower_def lower_char_def
          int_attr_def xml_get_def xml_get_default_def i parse_bool_literals)
  have wk: "InputItem_to_xml node_actions ?k
     = Inr (Element ''key'' [(''id'', ''30''), (''extended'', ''True''), (''always-execute'', ''True'')] [])"
    by (simp add: InputItem_to_xml_def s str_bool_def)
  have rk: "InputItem_from_xml node_actions
       (Element ''key'' [(''id'', ''30''), (''extended'', ''True''), (''always-execute'', ''True'')] [])
     = Inr (?k, [])"
    by (simp add: InputItem_from_xml_def tag_to_input_type_def lower_def lower_char_def
          int_attr_def xml_get_def xml_get_default_def i parse_bool_literals)
  from always_execute_by_absence [of node_actions ?b "Element ''button'' [(''id'', ''3'')] []"
      "Element ''button'' [(''id'', ''3'')] []" ?b "[]" ?b "[]"] wb rb
  have "xml_get (Element ''button'' [(''id'', ''3'')] []) ''always-execute'' = None"
    by simp
  with wb rb wk rk show ?thesis by simp
qed

lemma parse_actions_roundtrip:
  assumes "\<forall>a \<in> set acts. known_action (action_to_xml A a)
             \<and> action_from_xml A (tag (action_to_xml A a)) (action_to_xml A a) = Inr a"
  shows "parse_actions A (map (action_to_xml A) acts) = Inr (acts, [])"
  using assms by (induction acts) (simp_all add: known_action_def)

lemma int_attr_Cons_id:
  "int_attr (Element tg ((''id'', str_int n) # attrs) cs) ''id'' = Inr n"
  by (simp add: int_attr_def xml_get_def int_of_string_str_int)

lemma InputItem_roundtrip:
  assumes wf: "(input_type item = Keyboard) = (\<exists>k e. input_id item = IdKey k e)"
    and acts: "\<forall>a \<in> set (actions item). known_action (action_to_xml A a)
                 \<and> action_from_xml A (tag (action_to_xml A a)) (action_to_xml A a) = Inr a"
  shows "\<exists>node. InputItem_to_xml A item = Inr node \<and> InputItem_from_xml A node = Inr (item, [])"
proof (cases "input_id item")
  case (IdInt n)
  with wf have t: "input_type item \<noteq> Keyboard" by simp
  have "InputItem_to_xml A item
        = Inr (Element (input_type_to_tag (input_type item))
                 (if always_execute item then [(''id'', str_int n), (''always-execute'', ''True'')]
                  else [(''id'', str_int n)])
                 (map (action_to_xml A) (actions item)))"
    using t IdInt by (simp add: InputItem_to_xml_def)
  moreover have "InputItem_from_xml A (Element (input_type_to_tag (input_type item))
                 (if always_execute item then [(''id'', str_int n), (''always-execute'', ''True'')]
                  else [(''id'', str_int n)])
                 (map (action_to_xml A) (actions item))) = Inr (item, [])"
    using t IdInt parse_actions_roundtrip [OF acts]
    by (simp add: InputItem_from_xml_def tag_to_input_type_inverse int_attr_Cons_id
          xml_get_default_def xml_get_def parse_bool_literals)
  ultimately show ?thesis by simp
next
  case (IdKey k e)
  with wf have t: "input_type item = Keyboard" by simp
  have "InputItem_to_xml A item
        = Inr (Element ''key''
                 (if always_execute item
                  then [(''id'', str_int k), (''extended'', str_bool e), (''always-execute'', ''True'')]
                  else [(''id'', str_int k), (''extended'', str_bool e)])
                 (map (action_to_xml A) (actions item)))"
    using t IdKey by (simp add: InputItem_to_xml_def)
  moreover have "InputItem_from_xml A (Element ''key''
                 (if always_execute item
                  then [(''id'', str_int k), (''extended'', str_bool e), (''always-execute'', ''True'')]
                  else [(''id'', str_int k), (''extended'', str_bool e)])
                 (map (action_to_xml A) (actions item))) = Inr (item, [])"
    using t IdKey parse_actions_roundtrip [OF acts] tag_to_input_type_inverse [of Keyboard]
    by (simp add: InputItem_from_xml_def int_attr_Cons_id
          xml_get_default_def xml_get_def parse_bool_literals parse_bool_str_bool)
  ultimately show ?thesis by simp
qed

section \<open>Unknown action tags\<close>














section \<open>The reconciliation pass\<close>

lemma update_last:
  "k \<notin> fst ` set al \<Longrightarrow> AList.update k v' (al @ [(k, v)]) = al @ [(k, v')]"
  by (induction al) auto

lemma not_key_map_of: "k \<notin> fst ` set al \<Longrightarrow> map_of al k = None"
  by (simp add: map_of_eq_None_iff)

lemma reconcile_device_step:
  "reconcile_device ml dev p =
     (if \<not> is_virtual dev \<and> device_id dev \<notin> fst ` set (devices p)
      then p\<lparr> devices := devices p @
                 [(device_id dev,
                   created_device dev
                     (ml (p\<lparr> devices := devices p @ [(device_id dev, created_device dev [])] \<rparr>)
                        (created_device dev [])))] \<rparr>
      else p)"
  by (simp add: reconcile_device_def Let_def created_device_def Device_init_def named_mode_def
        update_absent not_key_map_of update_last)

lemma reconcile_device_keys:
  "fst ` set (devices (reconcile_device ml dev p))
     = fst ` set (devices p) \<union> (if is_virtual dev then {} else {device_id dev})"
  by (auto simp: reconcile_device_step)

lemma reconcile_device_imports:
  "profile_imports (reconcile_device ml dev p) = profile_imports p"
  by (simp add: reconcile_device_step)

lemma reconcile_imports: "profile_imports (reconcile ml live p) = profile_imports p"
  by (induction live arbitrary: p) (simp_all add: reconcile_device_imports)

lemma reconcile_keys:
  "fst ` set (devices (reconcile ml live p))
     = fst ` set (devices p) \<union> device_id ` {dev \<in> set live. \<not> is_virtual dev}"
  by (induction live arbitrary: p) (auto simp: reconcile_device_keys)

lemma reconcile_fixed:
  "\<forall>dev \<in> set live. \<not> is_virtual dev \<longrightarrow> device_id dev \<in> fst ` set (devices p) \<Longrightarrow>
   reconcile ml live p = p"
  by (induction live arbitrary: p) (auto simp: reconcile_device_step)

lemma reconcile_idem: "reconcile ml live (reconcile ml live p) = reconcile ml live p"
  by (rule reconcile_fixed) (auto simp: reconcile_keys)

lemma reconcile_appends:
  "\<exists>new. devices (reconcile ml live p) = devices p @ new
     \<and> (\<forall>(k, d) \<in> set new. \<exists>dev \<in> set live. \<exists>names.
            \<not> is_virtual dev \<and> k = device_id dev \<and> k \<notin> fst ` set (devices p)
            \<and> d = created_device dev names)"
proof (induction live arbitrary: p)
  case Nil
  show ?case by simp
next
  case (Cons dev live)
  obtain new2 where n2: "devices (reconcile ml live (reconcile_device ml dev p))
        = devices (reconcile_device ml dev p) @ new2"
    and s2: "\<forall>(k, d) \<in> set new2. \<exists>dev' \<in> set live. \<exists>names.
            \<not> is_virtual dev' \<and> k = device_id dev'
            \<and> k \<notin> fst ` set (devices (reconcile_device ml dev p))
            \<and> d = created_device dev' names"
    using Cons.IH [of "reconcile_device ml dev p"] by blast
  obtain new1 where n1: "devices (reconcile_device ml dev p) = devices p @ new1"
    and s1: "\<forall>(k, d) \<in> set new1. \<exists>names. \<not> is_virtual dev \<and> k = device_id dev
              \<and> k \<notin> fst ` set (devices p) \<and> d = created_device dev names"
    by (cases "\<not> is_virtual dev \<and> device_id dev \<notin> fst ` set (devices p)")
       (auto simp: reconcile_device_step)
  have "devices (reconcile ml (dev # live) p) = devices p @ (new1 @ new2)"
    by (simp add: n1 n2)
  moreover have "\<forall>(k, d) \<in> set (new1 @ new2). \<exists>dev' \<in> set (dev # live). \<exists>names.
            \<not> is_virtual dev' \<and> k = device_id dev' \<and> k \<notin> fst ` set (devices p)
            \<and> d = created_device dev' names"
  proof -
    have "\<forall>(k, d) \<in> set new2. \<exists>dev' \<in> set (dev # live). \<exists>names.
            \<not> is_virtual dev' \<and> k = device_id dev' \<and> k \<notin> fst ` set (devices p)
            \<and> d = created_device dev' names"
      using s2 by (fastforce simp: reconcile_device_keys)
    moreover have "\<forall>(k, d) \<in> set new1. \<exists>dev' \<in> set (dev # live). \<exists>names.
            \<not> is_virtual dev' \<and> k = device_id dev' \<and> k \<notin> fst ` set (devices p)
            \<and> d = created_device dev' names"
      using s1 by fastforce
    ultimately show ?thesis by auto
  qed
  ultimately show ?case by blast
qed

lemma create_modes_lookup:
  "map_of (create_modes names ms) key =
     (case map_of ms key of
        Some m \<Rightarrow> Some m
      | None \<Rightarrow>
          (case key of
             Some n \<Rightarrow> if n \<in> set names then Some (named_mode n) else None
           | None \<Rightarrow> None))"
proof (induction names arbitrary: ms)
  case Nil
  show ?case by (simp split: option.splits)
next
  case (Cons n names)
  show ?case
    by (auto simp: Cons.IH named_mode_def update_conv' map_of_eq_None_iff [symmetric]
          split: option.splits)
qed

lemma create_modes_appends: "\<exists>new. create_modes names ms = ms @ new"
proof (induction names arbitrary: ms)
  case Nil
  show ?case by simp
next
  case (Cons n names)
  show ?case
  proof (cases "Some n \<in> fst ` set ms")
    case True
    with Cons.IH [of ms] show ?thesis by simp
  next
    case False
    then have "AList.update (Some n) (Mode_init\<lparr>mode_name := Some n\<rparr>) ms
               = ms @ [(Some n, Mode_init\<lparr>mode_name := Some n\<rparr>)]"
      by (simp add: update_absent not_key_map_of)
    with False Cons.IH [of "ms @ [(Some n, Mode_init\<lparr>mode_name := Some n\<rparr>)]"]
    show ?thesis by auto
  qed
qed


text \<open>
  C2. The reconciliation pass only appends to the devices of the profile: the devices
  present before keep their places and their contents, modes included, whether or not
  they are attached. Each appended entry is the device created for an attached,
  non-virtual device whose \<open>device_id\<close> was no key of the profile; afterwards every
  attached non-virtual device has its key. One round of the loop appends the device
  with the global mode and one empty mode for each supplied name not yet present, and
  \<open>create_modes\<close> keeps the modes it is given. Running the pass a second time on the
  same attached devices changes nothing; the imports are untouched.
\<close>

theorem reconcile_additive_idempotent:
  "(\<exists>new. devices (reconcile ml live p) = devices p @ new
       \<and> (\<forall>(k, d) \<in> set new. \<exists>dev \<in> set live. \<exists>names.
              \<not> is_virtual dev \<and> k = device_id dev \<and> k \<notin> fst ` set (devices p)
              \<and> d = created_device dev names))
   \<and> (\<forall>dev \<in> set live. \<not> is_virtual dev \<longrightarrow>
          device_id dev \<in> fst ` set (devices (reconcile ml live p)))
   \<and> (map_of (devices p) k = Some d \<longrightarrow> map_of (devices (reconcile ml live p)) k = Some d)
   \<and> reconcile ml live (reconcile ml live p) = reconcile ml live p
   \<and> profile_imports (reconcile ml live p) = profile_imports p
   \<and> reconcile_device ml dev p =
       (if \<not> is_virtual dev \<and> device_id dev \<notin> fst ` set (devices p)
        then p\<lparr> devices := devices p @
                   [(device_id dev,
                     created_device dev
                       (ml (p\<lparr> devices := devices p @ [(device_id dev, created_device dev [])] \<rparr>)
                          (created_device dev [])))] \<rparr>
        else p)
   \<and> map_of (create_modes names ms) key =
       (case map_of ms key of
          Some m \<Rightarrow> Some m
        | None \<Rightarrow>
            (case key of
               Some n \<Rightarrow> if n \<in> set names then Some (named_mode n) else None
             | None \<Rightarrow> None))
   \<and> (\<exists>new. create_modes names ms = ms @ new)"
proof (intro conjI)
  show "\<exists>new. devices (reconcile ml live p) = devices p @ new
       \<and> (\<forall>(k, d) \<in> set new. \<exists>dev \<in> set live. \<exists>names.
              \<not> is_virtual dev \<and> k = device_id dev \<and> k \<notin> fst ` set (devices p)
              \<and> d = created_device dev names)"
    by (rule reconcile_appends)
  show "\<forall>dev \<in> set live. \<not> is_virtual dev \<longrightarrow>
          device_id dev \<in> fst ` set (devices (reconcile ml live p))"
    by (auto simp: reconcile_keys)
  show "map_of (devices p) k = Some d \<longrightarrow> map_of (devices (reconcile ml live p)) k = Some d"
  proof
    assume a: "map_of (devices p) k = Some d"
    obtain new where "devices (reconcile ml live p) = devices p @ new"
      using reconcile_appends [of ml live p] by blast
    with a show "map_of (devices (reconcile ml live p)) k = Some d"
      by (simp add: map_add_def)
  qed
  show "reconcile ml live (reconcile ml live p) = reconcile ml live p"
    by (rule reconcile_idem)
  show "profile_imports (reconcile ml live p) = profile_imports p"
    by (rule reconcile_imports)
  show "reconcile_device ml dev p =
       (if \<not> is_virtual dev \<and> device_id dev \<notin> fst ` set (devices p)
        then p\<lparr> devices := devices p @
                   [(device_id dev,
                     created_device dev
                       (ml (p\<lparr> devices := devices p @ [(device_id dev, created_device dev [])] \<rparr>)
                          (created_device dev [])))] \<rparr>
        else p)"
    by (rule reconcile_device_step)
  show "map_of (create_modes names ms) key =
       (case map_of ms key of
          Some m \<Rightarrow> Some m
        | None \<Rightarrow>
            (case key of
               Some n \<Rightarrow> if n \<in> set names then Some (named_mode n) else None
             | None \<Rightarrow> None))"
    by (rule create_modes_lookup)
  show "\<exists>new. create_modes names ms = ms @ new"
    by (rule create_modes_appends)
qed

text \<open>
  C2 on a profile that holds the device 7, which is not attached, with an extra mode:
  with a joystick 1 and a virtual device 2 attached and the mode names \<open>global\<close> and
  \<open>combat\<close> supplied, the pass keeps the device 7 as it is and appends the device 1
  with the modes \<open>global\<close> and \<open>combat\<close>.
\<close>

theorem reconcile_additive_idempotent_witness:
  "reconcile (\<lambda>p d. [''global'', ''combat''])
       [\<lparr> device_id = 1, live_name = ''stick'', live_hardware_id = 10, live_windows_id = 0,
           is_virtual = False \<rparr>,
        \<lparr> device_id = 2, live_name = ''vjoy'', live_hardware_id = 20, live_windows_id = 1,
           is_virtual = True \<rparr>]
       \<lparr> devices = [(7, created_device
                             \<lparr> device_id = 7, live_name = ''pedals'', live_hardware_id = 70,
                               live_windows_id = 3, is_virtual = False \<rparr> [''extra''])],
         profile_imports = [Some ''a.py''] \<rparr>
     = \<lparr> devices = [(7, created_device
                             \<lparr> device_id = 7, live_name = ''pedals'', live_hardware_id = 70,
                               live_windows_id = 3, is_virtual = False \<rparr> [''extra'']),
                      (1, \<lparr> device_name = Some ''stick'', hardware_id = Some 10,
                            windows_id = Some 0,
                            modes = [(Some ''global'', named_mode ''global''),
                                     (Some ''combat'', named_mode ''combat'')],
                            device_type = Some DeviceType_Joystick \<rparr> :: xml Device)],
           profile_imports = [Some ''a.py''] \<rparr>
   \<and> map_of (devices (reconcile (\<lambda>p d. [''global'', ''combat''])
       [\<lparr> device_id = 1, live_name = ''stick'', live_hardware_id = 10, live_windows_id = 0,
           is_virtual = False \<rparr>,
        \<lparr> device_id = 2, live_name = ''vjoy'', live_hardware_id = 20, live_windows_id = 1,
           is_virtual = True \<rparr>]
       \<lparr> devices = [(7, created_device
                             \<lparr> device_id = 7, live_name = ''pedals'', live_hardware_id = 70,
                               live_windows_id = 3, is_virtual = False \<rparr> [''extra''])],
         profile_imports = [Some ''a.py''] \<rparr>)) 7
     = Some (created_device
               \<lparr> device_id = 7, live_name = ''pedals'', live_hardware_id = 70,
                 live_windows_id = 3, is_virtual = False \<rparr> [''extra''] :: xml Device)
   \<and> 1 \<in> fst ` set (devices (reconcile (\<lambda>p d. [''global'', ''combat''])
       [\<lparr> device_id = 1, live_name = ''stick'', live_hardware_id = 10, live_windows_id = 0,
           is_virtual = False \<rparr>,
        \<lparr> device_id = 2, live_name = ''vjoy'', live_hardware_id = 20, live_windows_id = 1,
           is_virtual = True \<rparr>]
       (\<lparr> devices = [(7, created_device
                             \<lparr> device_id = 7, live_name = ''pedals'', live_hardware_id = 70,
                               live_windows_id = 3, is_virtual = False \<rparr> [''extra''])],
          profile_imports = [Some ''a.py''] \<rparr> :: xml Profile)))"
proof -
  let ?ml = "\<lambda>(p :: xml Profile) (d :: xml Device). [''global'', ''combat'']"
  let ?stick = "\<lparr> device_id = 1, live_name = ''stick'', live_hardware_id = 10,
                  live_windows_id = 0, is_virtual = False \<rparr>"
  let ?vjoy = "\<lparr> device_id = 2, live_name = ''vjoy'', live_hardware_id = 20,
                 live_windows_id = 1, is_virtual = True \<rparr>"
  let ?old = "created_device \<lparr> device_id = 7, live_name = ''pedals'', live_hardware_id = 70,
                               live_windows_id = 3, is_virtual = False \<rparr> [''extra''] :: xml Device"
  let ?p = "\<lparr> devices = [(7, ?old)], profile_imports = [Some ''a.py''] \<rparr>"
  have e: "reconcile ?ml [?stick, ?vjoy] ?p
     = \<lparr> devices = [(7, ?old),
                      (1, \<lparr> device_name = Some ''stick'', hardware_id = Some 10,
                            windows_id = Some 0,
                            modes = [(Some ''global'', named_mode ''global''),
                                     (Some ''combat'', named_mode ''combat'')],
                            device_type = Some DeviceType_Joystick \<rparr>)],
           profile_imports = [Some ''a.py''] \<rparr>"
    by (simp add: reconcile_device_def Let_def Device_init_def named_mode_def)
  have l: "map_of (devices ?p) 7 = Some ?old" by simp
  have s: "?stick \<in> set [?stick, ?vjoy]" "\<not> is_virtual ?stick" by simp_all
  from reconcile_additive_idempotent [of ?ml "[?stick, ?vjoy]" ?p 7 ?old] l s
  have "map_of (devices (reconcile ?ml [?stick, ?vjoy] ?p)) 7 = Some ?old"
    and "1 \<in> fst ` set (devices (reconcile ?ml [?stick, ?vjoy] ?p))"
    by (blast, force)
  with e show ?thesis by simp
qed

section \<open>Items, modes and devices written and read back\<close>

lemma wf_item_roundtrip:
  assumes "wf_item A item"
  shows "\<exists>node. InputItem_to_xml A item = Inr node \<and> InputItem_from_xml A node = Inr (item, [])"
  using assms by (intro InputItem_roundtrip) (auto simp: wf_item_def split: input_id.splits)

lemma items_roundtrip:
  assumes "\<forall>item \<in> set items. wf_item A item"
  shows "\<exists>nodes. collect (map (InputItem_to_xml A) items) = Inr nodes
           \<and> (\<forall>m0. Mode_items_from_xml A m0 nodes = Inr (foldl store m0 items, []))"
  using assms
proof (induction items)
  case Nil
  show ?case by simp
next
  case (Cons item items)
  then obtain nodes where n: "collect (map (InputItem_to_xml A) items) = Inr nodes"
    and r: "\<And>m0. Mode_items_from_xml A m0 nodes = Inr (foldl store m0 items, [])"
    by auto
  from Cons.prems obtain node where w: "InputItem_to_xml A item = Inr node"
    and f: "InputItem_from_xml A node = Inr (item, [])"
    using wf_item_roundtrip [of A item] by auto
  have "collect (map (InputItem_to_xml A) (item # items)) = Inr (node # nodes)"
    by (simp add: w n)
  moreover have "\<forall>m0. Mode_items_from_xml A m0 (node # nodes)
                   = Inr (foldl store m0 (item # items), [])"
    by (simp add: f r store_def)
  ultimately show ?case by blast
qed

lemma store_block:
  assumes "distinct (map fst (pre @ al))"
    and "\<forall>(i, item) \<in> set al. input_type item = t \<and> input_id item = i"
    and "config m0 t = pre"
  shows "foldl store m0 (map snd al) = m0\<lparr> config := (config m0)(t := pre @ al) \<rparr>"
  using assms
proof (induction al arbitrary: m0 pre)
  case Nil
  then have "(config m0)(t := pre) = config m0" by auto
  then show ?case by simp
next
  case (Cons x al)
  obtain i item where x: "x = (i, item)" by (cases x)
  from Cons.prems(2) have it: "input_type item = t" "input_id item = i" by (simp_all add: x)
  from Cons.prems(1) have "i \<notin> fst ` set pre" by (auto simp: x)
  then have u: "AList.update i item pre = pre @ [(i, item)]"
    by (simp add: update_absent not_key_map_of)
  let ?m1 = "m0\<lparr> config := (config m0)(t := pre @ [(i, item)]) \<rparr>"
  have s: "store m0 item = ?m1"
    by (simp add: store_def config_set_def it Cons.prems(3) u)
  have "foldl store m0 (map snd (x # al)) = foldl store (store m0 item) (map snd al)"
    by (simp add: x)
  also have "\<dots> = foldl store ?m1 (map snd al)"
    by (simp only: s)
  also have "\<dots> = ?m1\<lparr> config := (config ?m1)(t := (pre @ [(i, item)]) @ al) \<rparr>"
    using Cons.prems by (intro Cons.IH) (auto simp: x)
  also have "\<dots> = m0\<lparr> config := (config m0)(t := pre @ x # al) \<rparr>"
    by (simp add: x)
  finally show ?case .
qed

lemma Mode_rebuilt:
  assumes "wf_mode A m"
  shows "foldl store (Mode_init\<lparr> mode_name := mode_name m \<rparr>) (Mode_items m) = m"
proof -
  have wf: "\<And>t. distinct (map fst ([] @ config m t))"
    "\<And>t. \<forall>(i, item) \<in> set (config m t). input_type item = t \<and> input_id item = i"
    using assms by (auto simp: wf_mode_def)
  let ?m0 = "Mode_init\<lparr> mode_name := mode_name m \<rparr> :: 'a Mode"
  let ?m1 = "?m0\<lparr> config := (config ?m0)(JoystickAxis := [] @ config m JoystickAxis) \<rparr>"
  let ?m2 = "?m1\<lparr> config := (config ?m1)(JoystickButton := [] @ config m JoystickButton) \<rparr>"
  let ?m3 = "?m2\<lparr> config := (config ?m2)(JoystickHat := [] @ config m JoystickHat) \<rparr>"
  let ?m4 = "?m3\<lparr> config := (config ?m3)(Keyboard := [] @ config m Keyboard) \<rparr>"
  have 1: "foldl store ?m0 (map snd (config m JoystickAxis)) = ?m1"
    by (rule store_block [OF wf(1) wf(2)]) (simp add: Mode_init_def)
  have 2: "foldl store ?m1 (map snd (config m JoystickButton)) = ?m2"
    by (rule store_block [OF wf(1) wf(2)]) (simp add: Mode_init_def)
  have 3: "foldl store ?m2 (map snd (config m JoystickHat)) = ?m3"
    by (rule store_block [OF wf(1) wf(2)]) (simp add: Mode_init_def)
  have 4: "foldl store ?m3 (map snd (config m Keyboard)) = ?m4"
    by (rule store_block [OF wf(1) wf(2)]) (simp add: Mode_init_def)
  have f: "foldl store ?m0 (Mode_items m) = ?m4"
    unfolding Mode_items_def by (simp only: list.map concat.simps foldl_append 1 2 3 4 append_Nil2)
  have c: "config ?m4 = config m"
  proof
    fix t show "config ?m4 t = config m t"
      by (cases t) (simp_all add: Mode_init_def)
  qed
  have "?m4 = m"
    using c by (cases m) (simp add: Mode_init_def)
  with f show ?thesis by simp
qed

text \<open>A mode is read back from the node it is written to.\<close>

lemma Mode_roundtrip:
  assumes "wf_mode A m"
  shows "\<exists>node. Mode_to_xml A m = Inr node \<and> Mode_from_xml A node = Inr (m, [])"
proof -
  from assms obtain nm where nm: "mode_name m = Some nm"
    by (auto simp: wf_mode_def)
  have "\<forall>item \<in> set (Mode_items m). wf_item A item"
    using assms by (fastforce simp: wf_mode_def Mode_items_def)
  then obtain nodes where n: "collect (map (InputItem_to_xml A) (Mode_items m)) = Inr nodes"
    and r: "\<And>m0. Mode_items_from_xml A m0 nodes = Inr (foldl store m0 (Mode_items m), [])"
    using items_roundtrip [of "Mode_items m" A] by blast
  have w: "Mode_to_xml A m = Inr (Element ''mode'' [(''name'', nm)] nodes)"
    by (simp add: Mode_to_xml_def nm n)
  have "Mode_from_xml A (Element ''mode'' [(''name'', nm)] nodes) = Inr (m, [])"
    using Mode_rebuilt [OF assms] by (simp add: Mode_from_xml_def xml_get_def r nm)
  with w show ?thesis by blast
qed


lemma modes_roundtrip:
  assumes "\<forall>(k, m) \<in> set ms. mode_name m = k \<and> wf_mode A m"
  shows "\<exists>nodes. collect (map (\<lambda>(k, m). Mode_to_xml A m) ms) = Inr nodes
           \<and> (\<forall>d0. Device_modes_from_xml A d0 nodes = Inr (foldl store_mode d0 ms, []))"
  using assms
proof (induction ms)
  case Nil
  show ?case by simp
next
  case (Cons km ms)
  obtain k m where km: "km = (k, m)" by (cases km)
  from Cons obtain nodes where n: "collect (map (\<lambda>(k, m). Mode_to_xml A m) ms) = Inr nodes"
    and r: "\<And>d0. Device_modes_from_xml A d0 nodes = Inr (foldl store_mode d0 ms, [])"
    by auto
  from Cons.prems have k: "mode_name m = k" and "wf_mode A m" by (simp_all add: km)
  then obtain node where w: "Mode_to_xml A m = Inr node"
    and f: "Mode_from_xml A node = Inr (m, [])"
    using Mode_roundtrip [of A m] by auto
  have "collect (map (\<lambda>(k, m). Mode_to_xml A m) (km # ms)) = Inr (node # nodes)"
    by (simp add: km w n)
  moreover have "\<forall>d0. Device_modes_from_xml A d0 (node # nodes)
                   = Inr (foldl store_mode d0 (km # ms), [])"
    by (simp add: f r km k store_mode_def)
  ultimately show ?case by blast
qed

lemma store_mode_appends:
  assumes "distinct (map fst (modes d0 @ ms))"
  shows "foldl store_mode d0 ms = d0\<lparr> modes := modes d0 @ ms \<rparr>"
  using assms
proof (induction ms arbitrary: d0)
  case Nil
  show ?case by simp
next
  case (Cons km ms)
  obtain k m where km: "km = (k, m)" by (cases km)
  from Cons.prems have "k \<notin> fst ` set (modes d0)" by (auto simp: km)
  then have s: "store_mode d0 km = d0\<lparr> modes := modes d0 @ [(k, m)] \<rparr>"
    by (simp add: store_mode_def km update_absent not_key_map_of)
  have "foldl store_mode d0 (km # ms) = foldl store_mode (d0\<lparr> modes := modes d0 @ [(k, m)] \<rparr>) ms"
    by (simp add: s)
  also have "\<dots> = (d0\<lparr> modes := modes d0 @ [(k, m)] \<rparr>)
                      \<lparr> modes := modes (d0\<lparr> modes := modes d0 @ [(k, m)] \<rparr>) @ ms \<rparr>"
    using Cons.prems by (intro Cons.IH) (simp add: km)
  also have "\<dots> = d0\<lparr> modes := modes d0 @ km # ms \<rparr>"
    by (simp add: km)
  finally show ?case .
qed

text \<open>
  So is a device, by \<open>Device.from_xml\<close> and \<open>Device.to_xml\<close>: below the profile the
  two directions agree.
\<close>

lemma Device_roundtrip:
  assumes "wf_device A d"
  shows "\<exists>node. Device_to_xml A d = Inr node \<and> Device_from_xml A node = Inr (d, [])"
proof -
  from assms obtain nm hid wid g rest where
    nm: "device_name d = Some nm" "nm \<noteq> ''keyboard''"
    and ids: "hardware_id d = Some hid" "windows_id d = Some wid"
    and ty: "device_type d = Some DeviceType_Joystick"
    and ms: "modes d = (Some ''global'', g) # rest"
    and dist: "distinct (map fst (modes d))"
    and wf: "\<forall>(k, m) \<in> set (modes d). mode_name m = k \<and> wf_mode A m"
    by (auto simp: wf_device_def split: list.splits)
  obtain nodes where n: "collect (map (\<lambda>(k, m). Mode_to_xml A m) (modes d)) = Inr nodes"
    and r: "\<And>d0. Device_modes_from_xml A d0 nodes = Inr (foldl store_mode d0 (modes d), [])"
    using modes_roundtrip [OF wf] by blast
  let ?node = "Element ''device''
                 [(''name'', nm), (''id'', str_int hid), (''windows_id'', str_int wid)] nodes"
  have w: "Device_to_xml A d = Inr ?node"
    by (simp add: Device_to_xml_def nm ids n str_int_option_def)
  let ?d0 = "Device_init\<lparr> device_name := Some nm, hardware_id := Some hid,
                            windows_id := Some wid, device_type := Some DeviceType_Joystick \<rparr> :: 'a Device"
  have h: "Device_from_xml A ?node = Device_modes_from_xml A ?d0 nodes"
    by (simp add: Device_from_xml_def int_attr_def xml_get_def int_of_string_str_int nm(2) Let_def)
  let ?d1 = "?d0\<lparr> modes := [(Some ''global'', g)] \<rparr>"
  have s1: "store_mode ?d0 (Some ''global'', g) = ?d1"
    by (simp add: store_mode_def Device_init_def)
  have "foldl store_mode ?d0 (modes d) = foldl store_mode ?d1 rest"
    by (simp add: ms s1)
  also have "\<dots> = ?d1\<lparr> modes := modes ?d1 @ rest \<rparr>"
    using dist by (intro store_mode_appends) (simp add: ms)
  also have "\<dots> = d"
    using nm(1) ids ty ms by (cases d) (simp add: Device_init_def)
  finally have "foldl store_mode ?d0 (modes d) = d" .
  then have "Device_from_xml A ?node = Inr (d, [])"
    by (simp add: h r)
  with w show ?thesis by blast
qed

section \<open>Writing a profile and reading it back\<close>

lemma Profile_devices_from_xml_raises:
  "nodes \<noteq> [] \<Longrightarrow> \<exists>e. Profile_devices_from_xml A p nodes = Inl e"
  by (cases nodes) (auto simp: Device_index_def split: sum.splits)

lemma Device_to_xml_tag: "Device_to_xml A d = Inr node \<Longrightarrow> tag node = ''device''"
  by (auto simp: Device_to_xml_def split: option.splits sum.splits)

text \<open>
  A profile with at least one device, once written, cannot be read: whatever devices are
  attached, \<open>from_xml\<close> raises on the document.
\<close>

lemma saved_profile_with_device_does_not_load:
  assumes "devices p \<noteq> []" and "Profile_to_xml A p = Inr doc"
  shows "\<exists>e. Profile_from_xml A live ml q doc = Inl e"
proof -
  obtain k d rest where ds: "devices p = (k, d) # rest"
    using assms(1) by (cases "devices p") auto
  from assms(2) obtain dn dns ins where
    dn: "Device_to_xml A d = Inr dn"
    and doc: "doc = Element ''devices'' [(''version'', ''1'')] ((dn # dns) @ [Element ''import'' [] ins])"
    by (auto simp: Profile_to_xml_def ds split: sum.splits)
  have "tag dn = ''device''" using dn by (rule Device_to_xml_tag)
  then obtain as cs where "dn = Element ''device'' as cs" by (cases dn) auto
  then have "xml_iter ''device'' doc \<noteq> []" by (simp add: doc)
  then obtain e where "Profile_devices_from_xml A q (xml_iter ''device'' doc) = Inl e"
    using Profile_devices_from_xml_raises by blast
  then show ?thesis by (simp add: Profile_from_xml_def)
qed

lemma str_int_small: "str_int 0 = ''0''" "str_int 1 = ''1''" "str_int 10 = ''10''"
  by (simp_all add: str_int_def str_nat.simps digit_char_def)

lemma int_of_string_small:
  "int_of_string ''0'' = Some 0" "int_of_string ''1'' = Some 1" "int_of_string ''10'' = Some 10"
  using int_of_string_str_int [of 0] int_of_string_str_int [of 1] int_of_string_str_int [of 10]
  by (simp_all add: str_int_small)

lemma int_of_string_None: "int_of_string ''None'' = None"
  by (simp add: int_of_string_def strip_def is_space_def nat_of_string_def is_digit_def)

text \<open>
  C1 fails on the code. A profile is built by reading the empty document while one
  joystick is attached: the reconciliation creates its device. Writing this profile
  gives a document with one \<open>device\<close> element, and reading that document raises
  \<open>AttributeError\<close> at \<open>device.index\<close>; no profile equal to the first is returned.
\<close>

theorem Profile_reload_raises:
  "Profile_from_xml node_actions
       [\<lparr> device_id = 1, live_name = ''stick'', live_hardware_id = 10, live_windows_id = 0,
           is_virtual = False \<rparr>]
       (\<lambda>p d. [''global'']) Profile_init
       (Element ''devices'' [(''version'', ''1'')] [Element ''import'' [] []])
     = Inr (\<lparr> devices = [(1, \<lparr> device_name = Some ''stick'', hardware_id = Some 10,
                                 windows_id = Some 0,
                                 modes = [(Some ''global'', named_mode ''global'')],
                                 device_type = Some DeviceType_Joystick \<rparr>)],
               profile_imports = [] \<rparr>, [])
   \<and> Profile_to_xml node_actions
       \<lparr> devices = [(1, \<lparr> device_name = Some ''stick'', hardware_id = Some 10,
                           windows_id = Some 0,
                           modes = [(Some ''global'', named_mode ''global'')],
                           device_type = Some DeviceType_Joystick \<rparr>)],
         profile_imports = [] \<rparr>
     = Inr (Element ''devices'' [(''version'', ''1'')]
              [Element ''device'' [(''name'', ''stick''), (''id'', ''10''), (''windows_id'', ''0'')]
                 [Element ''mode'' [(''name'', ''global'')] []],
               Element ''import'' [] []])
   \<and> Profile_from_xml node_actions
       [\<lparr> device_id = 1, live_name = ''stick'', live_hardware_id = 10, live_windows_id = 0,
           is_virtual = False \<rparr>]
       (\<lambda>p d. [''global'']) Profile_init
       (Element ''devices'' [(''version'', ''1'')]
              [Element ''device'' [(''name'', ''stick''), (''id'', ''10''), (''windows_id'', ''0'')]
                 [Element ''mode'' [(''name'', ''global'')] []],
               Element ''import'' [] []])
     = Inl AttributeError"
proof (intro conjI)
  show "Profile_from_xml node_actions
       [\<lparr> device_id = 1, live_name = ''stick'', live_hardware_id = 10, live_windows_id = 0,
           is_virtual = False \<rparr>]
       (\<lambda>p d. [''global'']) Profile_init
       (Element ''devices'' [(''version'', ''1'')] [Element ''import'' [] []])
     = Inr (\<lparr> devices = [(1, \<lparr> device_name = Some ''stick'', hardware_id = Some 10,
                                 windows_id = Some 0,
                                 modes = [(Some ''global'', named_mode ''global'')],
                                 device_type = Some DeviceType_Joystick \<rparr>)],
               profile_imports = [] \<rparr>, [])"
    by (simp add: Profile_from_xml_def Profile_init_def reconcile_device_def Device_init_def
          named_mode_def Let_def)
  show "Profile_to_xml node_actions
       \<lparr> devices = [(1, \<lparr> device_name = Some ''stick'', hardware_id = Some 10,
                           windows_id = Some 0,
                           modes = [(Some ''global'', named_mode ''global'')],
                           device_type = Some DeviceType_Joystick \<rparr>)],
         profile_imports = [] \<rparr>
     = Inr (Element ''devices'' [(''version'', ''1'')]
              [Element ''device'' [(''name'', ''stick''), (''id'', ''10''), (''windows_id'', ''0'')]
                 [Element ''mode'' [(''name'', ''global'')] []],
               Element ''import'' [] []])"
    by (simp add: Profile_to_xml_def Device_to_xml_def Mode_to_xml_def Mode_items_def
          named_mode_def Mode_init_def str_int_option_def str_int_small)
  show "Profile_from_xml node_actions
       [\<lparr> device_id = 1, live_name = ''stick'', live_hardware_id = 10, live_windows_id = 0,
           is_virtual = False \<rparr>]
       (\<lambda>p d. [''global'']) Profile_init
       (Element ''devices'' [(''version'', ''1'')]
              [Element ''device'' [(''name'', ''stick''), (''id'', ''10''), (''windows_id'', ''0'')]
                 [Element ''mode'' [(''name'', ''global'')] []],
               Element ''import'' [] []])
     = Inl AttributeError"
    by (simp add: Profile_from_xml_def Device_from_xml_def int_attr_def xml_get_def
          int_of_string_small Device_init_def Mode_from_xml_def Device_index_def Let_def)
qed

text \<open>
  A device created by \<open>get_device_modes\<close> has no \<open>windows_id\<close>. It is written as
  \<open>windows_id="None"\<close>, and reading it raises \<open>ValueError\<close> at \<open>int("None")\<close>.
\<close>

lemma get_device_modes_reload_raises:
  "snd (Profile_get_device_modes Profile_init 10 (Some ''stick''))
     = \<lparr> devices = [(10, \<lparr> device_name = Some ''stick'', hardware_id = Some 10,
                            windows_id = None,
                            modes = [(Some ''global'', named_mode ''global'')],
                            device_type = Some DeviceType_Joystick \<rparr>)],
         profile_imports = [] \<rparr>
   \<and> Profile_to_xml node_actions (snd (Profile_get_device_modes Profile_init 10 (Some ''stick'')))
     = Inr (Element ''devices'' [(''version'', ''1'')]
              [Element ''device'' [(''name'', ''stick''), (''id'', ''10''), (''windows_id'', ''None'')]
                 [Element ''mode'' [(''name'', ''global'')] []],
               Element ''import'' [] []])
   \<and> Profile_from_xml node_actions [] (\<lambda>p d. []) Profile_init
       (Element ''devices'' [(''version'', ''1'')]
              [Element ''device'' [(''name'', ''stick''), (''id'', ''10''), (''windows_id'', ''None'')]
                 [Element ''mode'' [(''name'', ''global'')] []],
               Element ''import'' [] []])
     = Inl ValueError"
proof -
  have g: "snd (Profile_get_device_modes Profile_init 10 (Some ''stick''))
     = \<lparr> devices = [(10, \<lparr> device_name = Some ''stick'', hardware_id = Some 10,
                            windows_id = None,
                            modes = [(Some ''global'', named_mode ''global'')],
                            device_type = Some DeviceType_Joystick \<rparr>)],
         profile_imports = ([] :: string option list) \<rparr>"
    by (simp add: Profile_get_device_modes_def Profile_init_def Device_init_def named_mode_def
          Let_def)
  have w: "Profile_to_xml node_actions (snd (Profile_get_device_modes Profile_init 10 (Some ''stick'')))
     = Inr (Element ''devices'' [(''version'', ''1'')]
              [Element ''device'' [(''name'', ''stick''), (''id'', ''10''), (''windows_id'', ''None'')]
                 [Element ''mode'' [(''name'', ''global'')] []],
               Element ''import'' [] []])"
    unfolding g
    by (simp add: Profile_to_xml_def Device_to_xml_def Mode_to_xml_def Mode_items_def
          named_mode_def Mode_init_def str_int_option_def str_int_small)
  have r: "Profile_from_xml node_actions [] (\<lambda>p d. []) Profile_init
       (Element ''devices'' [(''version'', ''1'')]
              [Element ''device'' [(''name'', ''stick''), (''id'', ''10''), (''windows_id'', ''None'')]
                 [Element ''mode'' [(''name'', ''global'')] []],
               Element ''import'' [] []])
     = Inl ValueError"
    by (simp add: Profile_from_xml_def Device_from_xml_def int_attr_def xml_get_def
          int_of_string_small int_of_string_None)
  from g w r show ?thesis by simp
qed

lemma import_nodes_read_back:
  assumes "collect (map (\<lambda>entry. case entry of None \<Rightarrow> Inl TypeError
                            | Some nm \<Rightarrow> Inr (Element ''module'' [(''name'', nm)] [])) imps)
           = Inr nodes"
  shows "map (\<lambda>entry. xml_get entry ''name'') nodes = imps
         \<and> concat (map (xml_iter ''device'') nodes) = []
         \<and> concat (map (xml_iter ''import'') nodes) = []"
  using assms
  by (induction imps arbitrary: nodes) (auto simp: xml_get_def split: sum.splits option.splits)

text \<open>
  What does hold at the level of the profile: a profile without devices, written and
  read while no non-virtual device is attached, is read back as it was, imports in
  order.
\<close>

lemma Profile_roundtrip_without_devices:
  assumes "devices p = []" and "\<forall>dev \<in> set live. is_virtual dev"
    and "Profile_to_xml A p = Inr doc"
  shows "Profile_from_xml A live ml Profile_init doc = Inr (p, [])"
proof -
  from assms(1,3) obtain nodes where
    c: "collect (map (\<lambda>entry. case entry of None \<Rightarrow> Inl TypeError
                            | Some nm \<Rightarrow> Inr (Element ''module'' [(''name'', nm)] []))
                   (profile_imports p)) = Inr nodes"
    and doc: "doc = Element ''devices'' [(''version'', ''1'')] [Element ''import'' [] nodes]"
    by (auto simp: Profile_to_xml_def split: sum.splits)
  note r = import_nodes_read_back [OF c]
  have d: "xml_iter ''device'' doc = []" using r by (simp add: doc)
  have i: "xml_iter ''import'' doc = [Element ''import'' [] nodes]" using r by (simp add: doc)
  have f: "reconcile ml live Profile_init = Profile_init"
    using assms(2) by (intro reconcile_fixed) simp
  have "Profile_from_xml A live ml Profile_init doc
        = Inr (Profile_init\<lparr> profile_imports := profile_imports p \<rparr>, [])"
    using r by (simp add: Profile_from_xml_def d i f Let_def) (simp add: Profile_init_def)
  moreover have "Profile_init\<lparr> profile_imports := profile_imports p \<rparr> = p"
    using assms(1) by (simp add: Profile_init_def)
  ultimately show ?thesis by simp
qed

end
